theory Spec2Isabelle
  imports Main "HOL-Library.Word"
begin

unbundle bit_operations_syntax

section \<open>Machine types and raw bytes\<close>

type_synonym u8 = "8 word"
type_synonym u16 = "16 word"
type_synonym u32 = "32 word"

text \<open>
  A block of raw bytes (a sector on the card, a buffer on the stack) is read by offset.
  Pointers are 32-bit words (the boot loader runs on a 32-bit target); \<open>NULL\<close> is 0.
\<close>

type_synonym bytes = "nat \<Rightarrow> u8"

definition le16 :: "bytes \<Rightarrow> nat \<Rightarrow> u16" where
  "le16 b i = ucast (b i) OR push_bit 8 (ucast (b (i + 1)))"

definition le32 :: "bytes \<Rightarrow> nat \<Rightarrow> u32" where
  "le32 b i = ucast (b i) OR push_bit 8 (ucast (b (i + 1)))
     OR push_bit 16 (ucast (b (i + 2))) OR push_bit 24 (ucast (b (i + 3)))"

definition field :: "bytes \<Rightarrow> nat \<Rightarrow> nat \<Rightarrow> u8 list" where
  "field b i n = map (\<lambda>j. b (i + j)) [0..<n]"

definition NULL :: u32 where
  "NULL = 0"

section \<open>The block reader and the diagnostics channel\<close>

text \<open>
  \<open>mmc_block_read\<close> and the \<open>SERIAL_PUTI\<close>/\<open>SERIAL_PUTS\<close> macros are external to
  \<open>fat.c\<close>. The card is a fixed content per sector; whether a request fails may depend
  on everything that was requested before. Every call is recorded in a log, with the
  buffer it was given: a buffer on the stack of the caller, or an address in memory.
  The device number \<open>id\<close> is the same in every call of \<open>fat.c\<close>: a \<open>device\<close> is the
  card with that number.
\<close>

datatype buffer = Local | Addr u32

datatype event = Block_read buffer u32 u32 | Serial_puti u8 | Serial_puts string

record device =
  blocks :: "u32 \<Rightarrow> bytes"
  fails :: "event list \<Rightarrow> u32 \<Rightarrow> u32 \<Rightarrow> bool"

text \<open>
  The state of the program: the four globals of \<open>fat.c\<close>, the memory, the bytes an
  uninitialised sector buffer on the stack starts with, and the log.
\<close>

record state =
  lba_fat1 :: u32
  lba_data :: u32
  root_cluster :: u32
  cluster_size :: u8
  mem :: "u32 \<Rightarrow> u8"
  stack :: bytes
  log :: "event list"

text \<open>
  Modelled from the spec: \<open>FAT_BLOCK_SIZE\<close> of the missing \<open>fat.h\<close>, the fixed sector
  size; the trailing signature of sector 0 sits at offsets 510 and 511, so a sector has
  512 bytes.
\<close>

definition FAT_BLOCK_SIZE :: u32 where
  "FAT_BLOCK_SIZE = 512"

definition serial_puti :: "u8 \<Rightarrow> state \<Rightarrow> state" where
  "serial_puti c st = st\<lparr>log := log st @ [Serial_puti c]\<rparr>"

definition serial_puts :: "string \<Rightarrow> state \<Rightarrow> state" where
  "serial_puts s st = st\<lparr>log := log st @ [Serial_puts s]\<rparr>"

text \<open>The two messages of \<open>fat.c\<close>, each with its newline.\<close>

definition msg_detected :: string where
  "msg_detected = ''MMC: FAT32 filesystem detected.'' @ [CHR 0x0A]"

definition msg_loading :: string where
  "msg_loading = ''MMC: Loading kernel file...'' @ [CHR 0x0A]"

text \<open>
  \<open>mmc_block_read(id, buf, sector, 1)\<close> into a buffer on the stack: the bytes read, or
  \<open>None\<close> when the request fails.
\<close>

definition mmc_block_read_local :: "device \<Rightarrow> u32 \<Rightarrow> state \<Rightarrow> bytes option \<times> state" where
  "mmc_block_read_local dev s st =
     (if fails dev (log st) s 1 then None else Some (blocks dev s),
      st\<lparr>log := log st @ [Block_read Local s 1]\<rparr>)"

text \<open>
  \<open>mmc_block_read(id, addr, sector, n)\<close> into memory: \<open>True\<close> when the request fails
  (the C function returns non-zero). A failed request leaves the memory as it was; a
  request that succeeds stores \<open>n\<close> sectors from \<open>addr\<close> on, addresses wrapping at
  \<open>2 ^ 32\<close>.
\<close>

definition store_blocks :: "device \<Rightarrow> u32 \<Rightarrow> u32 \<Rightarrow> u32 \<Rightarrow> (u32 \<Rightarrow> u8) \<Rightarrow> u32 \<Rightarrow> u8" where
  "store_blocks dev addr s n m p =
     (if unat (p - addr) < unat n * unat FAT_BLOCK_SIZE
      then blocks dev (s + (p - addr) div FAT_BLOCK_SIZE) (unat ((p - addr) mod FAT_BLOCK_SIZE))
      else m p)"

definition mmc_block_read_mem :: "device \<Rightarrow> u32 \<Rightarrow> u32 \<Rightarrow> u32 \<Rightarrow> state \<Rightarrow> bool \<times> state" where
  "mmc_block_read_mem dev addr s n st =
     (if fails dev (log st) s n
      then (True, st\<lparr>log := log st @ [Block_read (Addr addr) s n]\<rparr>)
      else (False, st\<lparr>mem := store_blocks dev addr s n (mem st),
                       log := log st @ [Block_read (Addr addr) s n]\<rparr>))"

definition is_read :: "event \<Rightarrow> bool" where
  "is_read e = (case e of Block_read b s n \<Rightarrow> True | _ \<Rightarrow> False)"

definition is_fat_read :: "event \<Rightarrow> bool" where
  "is_fat_read e = (case e of Block_read Local s n \<Rightarrow> True | _ \<Rightarrow> False)"

definition is_data_read :: "event \<Rightarrow> bool" where
  "is_data_read e = (case e of Block_read (Addr a) s n \<Rightarrow> True | _ \<Rightarrow> False)"

section \<open>On-disk structures\<close>

text \<open>
  Modelled from the spec: the structures \<open>mbr\<close>, \<open>boot_sector\<close>, \<open>volume_info\<close> and
  \<open>dir_entry\<close> are declared in the missing \<open>fat.h\<close>. Only the fields that \<open>fat.c\<close> reads
  are kept, at the standard offsets of the master boot record and of FAT32, in
  little-endian byte order.
\<close>

record mbr_partition =
  status :: u8
  lba :: u32

record mbr =
  partitions :: "mbr_partition list"
  signature :: u16

definition mbr_of :: "bytes \<Rightarrow> mbr" where
  "mbr_of b =
     \<lparr>partitions = map (\<lambda>k. \<lparr>status = b (446 + 16 * k), lba = le32 b (446 + 16 * k + 8)\<rparr>) [0..<4],
      signature = le16 b 510\<rparr>"

record boot_sector =
  bs_cluster_size :: u8
  bs_reserved :: u16
  bs_fats :: u8
  bs_fat32_length :: u32
  bs_root_cluster :: u32

definition boot_sector_of :: "bytes \<Rightarrow> boot_sector" where
  "boot_sector_of b =
     \<lparr>bs_cluster_size = b 13, bs_reserved = le16 b 14, bs_fats = b 16,
      bs_fat32_length = le32 b 36, bs_root_cluster = le32 b 44\<rparr>"

record volume_info =
  fs_type :: "u8 list"

definition volume_info_of :: "bytes \<Rightarrow> volume_info" where
  "volume_info_of b = \<lparr>fs_type = field b 82 8\<rparr>"

record dir_entry =
  name :: "u8 list"
  attr :: u8
  starthi :: u16
  start :: u16

definition dir_entry_at :: "(u32 \<Rightarrow> u8) \<Rightarrow> u32 \<Rightarrow> dir_entry" where
  "dir_entry_at m p =
     (let b = (\<lambda>j. m (p + of_nat j))
      in \<lparr>name = field b 0 11, attr = b 11, starthi = le16 b 20, start = le16 b 26\<rparr>)"

definition ATTR_VOLUME :: u8 where
  "ATTR_VOLUME = 8"

definition ATTR_DIR :: u8 where
  "ATTR_DIR = 16"

section \<open>The C library\<close>

text \<open>
  \<open>strncmp\<close>: at most \<open>n\<close> characters are compared, and the comparison stops after a NUL.
  A list stands for the characters at a pointer; a string literal is followed by its
  NUL, so reading past the end of the list gives 0.
\<close>

definition char_at :: "u8 list \<Rightarrow> u8" where
  "char_at s = (case s of [] \<Rightarrow> 0 | c # cs \<Rightarrow> c)"

fun strncmp :: "u8 list \<Rightarrow> u8 list \<Rightarrow> nat \<Rightarrow> int" where
  "strncmp s1 s2 0 = 0"
| "strncmp s1 s2 (Suc n) =
     (if char_at s1 \<noteq> char_at s2 then uint (char_at s1) - uint (char_at s2)
      else if char_at s1 = 0 then 0
      else strncmp (tl s1) (tl s2) n)"

definition FAT32_tag :: "u8 list" where
  "FAT32_tag = [0x46, 0x41, 0x54, 0x33, 0x32]"

section \<open>Partition locator and volume parser\<close>

text \<open>
  \<open>get_first_partition\<close>: \<open>Some lba\<close> stands for the return value 0 with \<open>*lba\<close>
  assigned, \<open>None\<close> for the return value -1 with \<open>*lba\<close> untouched.
\<close>

definition get_first_partition :: "device \<Rightarrow> state \<Rightarrow> u32 option \<times> state" where
  "get_first_partition dev st =
     (case mmc_block_read_local dev 0 st of
        (None, st1) \<Rightarrow> (None, serial_puti 0x00 st1)
      | (Some b, st1) \<Rightarrow>
          if signature (mbr_of b) \<noteq> 0xAA55 then (None, serial_puti 0x01 st1)
          else if status (partitions (mbr_of b) ! 0) \<noteq> 0
                  \<and> status (partitions (mbr_of b) ! 0) \<noteq> 0x80
          then (None, serial_puti 0x02 st1)
          else (Some (lba (partitions (mbr_of b) ! 0)), st1))"

definition set_geometry :: "u32 \<Rightarrow> boot_sector \<Rightarrow> state \<Rightarrow> state" where
  "set_geometry l bs st =
     (let st1 = st\<lparr>lba_fat1 := l + ucast (bs_reserved bs)\<rparr>;
          st2 = st1\<lparr>lba_data := lba_fat1 st1 + bs_fat32_length bs * ucast (bs_fats bs)\<rparr>;
          st3 = st2\<lparr>root_cluster := bs_root_cluster bs\<rparr>
      in st3\<lparr>cluster_size := bs_cluster_size bs\<rparr>)"

definition process_boot_sector :: "device \<Rightarrow> u32 \<Rightarrow> state \<Rightarrow> int \<times> state" where
  "process_boot_sector dev l st =
     (case mmc_block_read_local dev l st of
        (None, st1) \<Rightarrow> (- 1, serial_puti 0x03 st1)
      | (Some sector, st1) \<Rightarrow>
          let st2 = set_geometry l (boot_sector_of sector) st1
          in if strncmp (fs_type (volume_info_of sector)) FAT32_tag 5 \<noteq> 0
             then (- 1, serial_puti 0x05 st2)
             else (0, serial_puts msg_detected st2))"

section \<open>Cluster-chain loader\<close>

text \<open>
  The locals of \<open>load_from_cluster\<close> that survive a batch: the number of the FAT sector
  held in the buffer \<open>sector\<close>, and that buffer.
\<close>

record fat_cache =
  cached_fat_sector :: u32
  sector :: bytes

definition fat_sector_of :: "state \<Rightarrow> u32 \<Rightarrow> u32" where
  "fat_sector_of st cluster = lba_fat1 st + cluster div (drop_bit 2 FAT_BLOCK_SIZE)"

text \<open>
  The block under the comment \<open>Read FAT\<close>: the FAT sector is read only when it is not
  the cached one; \<open>None\<close> when the read fails.
\<close>

definition read_fat :: "device \<Rightarrow> fat_cache \<Rightarrow> u32 \<Rightarrow> state \<Rightarrow> fat_cache option \<times> state" where
  "read_fat dev fc cluster st =
     (if fat_sector_of st cluster \<noteq> cached_fat_sector fc
      then (case mmc_block_read_local dev (fat_sector_of st cluster) st of
              (None, st1) \<Rightarrow> (None, serial_puti 0x04 st1)
            | (Some b, st1) \<Rightarrow>
                (Some \<lparr>cached_fat_sector = fat_sector_of st cluster, sector = b\<rparr>, st1))
      else (Some fc, st))"

text \<open>\<open>sector[cluster % (FAT_BLOCK_SIZE >> 2)] & 0x0fffffff\<close>\<close>

definition next_cluster :: "bytes \<Rightarrow> u32 \<Rightarrow> u32" where
  "next_cluster b cluster =
     le32 b (4 * unat (cluster mod (drop_bit 2 FAT_BLOCK_SIZE))) AND 0x0fffffff"

text \<open>
  The inner loop: it counts the sectors of the clusters that follow one another, and
  leaves with the first successor that is not the next cluster number. \<open>None\<close> when a
  FAT read fails (the function then returns \<open>NULL\<close>).
\<close>

function load_inner ::
  "device \<Rightarrow> fat_cache \<Rightarrow> u32 \<Rightarrow> u32 \<Rightarrow> state \<Rightarrow> (fat_cache \<times> u32 \<times> u32) option \<times> state"
where
  "load_inner dev fc cluster num_data_sectors st =
     (case read_fat dev fc cluster st of
        (None, st1) \<Rightarrow> (None, st1)
      | (Some fc1, st1) \<Rightarrow>
          if next_cluster (sector fc1) cluster = cluster + 1
          then load_inner dev fc1 (next_cluster (sector fc1) cluster)
                 (num_data_sectors + ucast (cluster_size st1)) st1
          else (Some (fc1, next_cluster (sector fc1) cluster, num_data_sectors), st1))"
  by pat_completeness auto

definition data_sector_of :: "state \<Rightarrow> u32 \<Rightarrow> u32" where
  "data_sector_of st cluster = lba_data st + (cluster - 2) * ucast (cluster_size st)"

definition inner_measure :: "u32 \<Rightarrow> nat" where
  "inner_measure c = (if unat c < 2 ^ 28 then 2 ^ 28 - unat c else 2 ^ 28 + 1)"

termination load_inner
proof (relation "measure (\<lambda>(dev, fc, cluster, n, st). inner_measure cluster)", goal_cases)
  case 1
  show ?case by simp
next
  case (2 dev fc cluster n st x y fc1)
  have "next_cluster (sector fc1) cluster \<le> 0x0fffffff"
    unfolding next_cluster_def by (rule word_and_le1)
  then have "unat (next_cluster (sector fc1) cluster) \<le> unat (0x0fffffff :: u32)"
    by (simp add: word_le_nat_alt)
  then have bound: "unat (cluster + 1) < 2 ^ 28"
    using 2 by simp
  have "inner_measure (cluster + 1) < inner_measure cluster"
  proof (cases "unat cluster < 2 ^ 28")
    case True
    then have "unat (cluster + 1) = unat cluster + 1"
      by (simp add: unat_word_ariths)
    with True bound show ?thesis
      by (simp add: inner_measure_def)
  next
    case False
    with bound show ?thesis
      by (simp add: inner_measure_def)
  qed
  with 2 show ?case by simp
qed

declare load_inner.simps [simp del]

text \<open>
  The outer loop, one batch per round. \<open>None\<close> stands for a loop that never ends; a
  result \<open>Some (p, st)\<close> is the pointer returned, \<open>NULL\<close> after a failed read.
\<close>

partial_function (option) load_outer ::
  "device \<Rightarrow> fat_cache \<Rightarrow> u32 \<Rightarrow> u32 \<Rightarrow> state \<Rightarrow> (u32 \<times> state) option"
where
  "load_outer dev fc cluster ld_addr st =
     (case load_inner dev fc cluster (ucast (cluster_size st)) st of
        (None, st1) \<Rightarrow> Some (NULL, st1)
      | (Some (fc1, cluster1, num_data_sectors), st1) \<Rightarrow>
          (case mmc_block_read_mem dev ld_addr (data_sector_of st cluster) num_data_sectors st1 of
             (failed, st2) \<Rightarrow>
               if failed then Some (NULL, serial_puti 0x03 st2)
               else if cluster1 \<ge> 0x0ffffff0 \<or> cluster1 \<le> 1
               then Some (ld_addr + num_data_sectors * FAT_BLOCK_SIZE, st2)
               else load_outer dev fc1 cluster1 (ld_addr + num_data_sectors * FAT_BLOCK_SIZE) st2))"

declare load_outer.simps [code]

text \<open>
  \<open>cached_fat_sector\<close> starts as \<open>-1\<close>, that is \<open>0xFFFFFFFF\<close>, and the buffer \<open>sector\<close>
  starts with whatever the stack holds.
\<close>

definition load_from_cluster :: "device \<Rightarrow> u32 \<Rightarrow> u32 \<Rightarrow> state \<Rightarrow> (u32 \<times> state) option" where
  "load_from_cluster dev cluster ld_addr st =
     load_outer dev \<lparr>cached_fat_sector = - 1, sector = stack st\<rparr> cluster ld_addr st"

section \<open>Directory search\<close>

text \<open>
  Modelled from the spec: the size of \<open>struct dir_entry\<close> of the missing \<open>fat.h\<close>, a
  32-byte fixed-size record; \<open>entry++\<close> adds it to the pointer.
\<close>

definition sizeof_dir_entry :: u32 where
  "sizeof_dir_entry = 32"

text \<open>
  \<open>find_file\<close> over the memory: the loop variable \<open>entry\<close> is the first argument. The
  result is the pointer returned, \<open>NULL\<close> when nothing is found; \<open>None\<close> stands for a
  scan that never ends.
\<close>

partial_function (option) find_file ::
  "(u32 \<Rightarrow> u8) \<Rightarrow> u32 \<Rightarrow> u32 \<Rightarrow> u8 list \<Rightarrow> u32 option"
where
  "find_file m entry endp nm =
     (if entry \<noteq> endp \<and> name (dir_entry_at m entry) ! 0 \<noteq> 0
      then if attr (dir_entry_at m entry) AND (ATTR_VOLUME OR ATTR_DIR) \<noteq> 0
           then find_file m (entry + sizeof_dir_entry) endp nm
           else if strncmp (name (dir_entry_at m entry)) nm (8 + 3) = 0
           then Some entry
           else find_file m (entry + sizeof_dir_entry) endp nm
      else Some NULL)"

declare find_file.simps [code]

section \<open>Kernel load\<close>

text \<open>
  \<open>FAT_BOOTFILE_NAME\<close> and \<open>FAT_BOOTFILE_ALT_NAME\<close> come from the missing \<open>config.h\<close>:
  they are parameters here.
\<close>

record config =
  FAT_BOOTFILE_NAME :: "u8 list"
  FAT_BOOTFILE_ALT_NAME :: "u8 list"

text \<open>\<open>entry->starthi << 16 | entry->start\<close>\<close>

definition start_cluster :: "dir_entry \<Rightarrow> u32" where
  "start_cluster e = push_bit 16 (ucast (starthi e)) OR ucast (start e)"

text \<open>
  The \<open>for\<close> loop of \<open>mmc_load_kernel\<close> from round \<open>i\<close> on, with the locals \<open>dir_start\<close>,
  \<open>dir_end\<close> and \<open>err\<close>, and what follows the loop.
\<close>

function kernel_loop ::
  "config \<Rightarrow> device \<Rightarrow> u32 \<Rightarrow> int \<Rightarrow> int \<Rightarrow> u32 \<Rightarrow> u32 \<Rightarrow> int \<Rightarrow> state \<Rightarrow> (int \<times> state) option"
where
  "kernel_loop cfg dev ld_addr alt i dir_start dir_end err st =
     (if i < 2 then
        (case (if dir_start = NULL
               then map_option (\<lambda>(e, s). (ld_addr, e, s))
                      (load_from_cluster dev (root_cluster st) ld_addr st)
               else Some (dir_start, dir_end, st)) of
           None \<Rightarrow> None
         | Some (dir_start1, dir_end1, st1) \<Rightarrow>
             if dir_start = NULL \<and> dir_end1 = NULL then Some (- 1, st1)
             else
               (case find_file (mem st1) dir_start1 dir_end1
                       (if i = (if alt \<noteq> 0 then 1 else 0)
                        then FAT_BOOTFILE_NAME cfg else FAT_BOOTFILE_ALT_NAME cfg) of
                  None \<Rightarrow> None
                | Some entry \<Rightarrow>
                    if entry \<noteq> NULL then
                      (case load_from_cluster dev (start_cluster (dir_entry_at (mem st1) entry))
                              ld_addr (serial_puts msg_loading st1) of
                         None \<Rightarrow> None
                       | Some (p, st2) \<Rightarrow>
                           if p \<noteq> NULL
                           then Some (if i = (if alt = 0 then 1 else 0) then 1 else 0, st2)
                           else kernel_loop cfg dev ld_addr alt (i + 1) NULL dir_end1 (- 1) st2)
                    else kernel_loop cfg dev ld_addr alt (i + 1) dir_start1 dir_end1 err st1))
      else if err \<noteq> 0 then Some (err, st)
      else Some (- 1, serial_puti 0x07 st))"
  by pat_completeness auto

termination kernel_loop
  by (relation "measure (\<lambda>(cfg, dev, ld_addr, alt, i, r). nat (2 - i))") auto

declare kernel_loop.simps [simp del]

text \<open>
  \<open>dir_end\<close> is not initialised in the C code; it is assigned in the first round,
  where \<open>dir_start\<close> is \<open>NULL\<close>, before it is read.
\<close>

definition mmc_load_kernel ::
  "config \<Rightarrow> device \<Rightarrow> u32 \<Rightarrow> int \<Rightarrow> state \<Rightarrow> (int \<times> state) option"
where
  "mmc_load_kernel cfg dev ld_addr alt st =
     (case get_first_partition dev st of
        (None, st1) \<Rightarrow> Some (- 1, st1)
      | (Some l, st1) \<Rightarrow>
          (case process_boot_sector dev l st1 of
             (err, st2) \<Rightarrow>
               if err \<noteq> 0 then Some (err, st2)
               else kernel_loop cfg dev ld_addr alt 0 NULL NULL 0 st2))"

section \<open>Cluster chains, as the FAT on the card gives them\<close>

text \<open>
  The successor of a cluster: the low 28 bits of its entry in the FAT on the card. The
  test that ends the outer loop of \<open>load_from_cluster\<close> is \<open>end_of_chain\<close>.
\<close>

definition fat_next :: "device \<Rightarrow> state \<Rightarrow> u32 \<Rightarrow> u32" where
  "fat_next dev st c = next_cluster (blocks dev (fat_sector_of st c)) c"

definition end_of_chain :: "u32 \<Rightarrow> bool" where
  "end_of_chain c = (c \<ge> 0x0ffffff0 \<or> c \<le> 1)"

text \<open>
  \<open>cluster_chain nx cs t\<close>: the clusters \<open>cs\<close> follow one another in the FAT, none
  after the first is an end-of-chain value, and the entry of the last one is the
  end-of-chain value \<open>t\<close>.
\<close>

fun cluster_chain :: "(u32 \<Rightarrow> u32) \<Rightarrow> u32 list \<Rightarrow> u32 \<Rightarrow> bool" where
  "cluster_chain nx [] t = False"
| "cluster_chain nx [c] t = (nx c = t \<and> end_of_chain t)"
| "cluster_chain nx (c # d # ds) t = (nx c = d \<and> \<not> end_of_chain d \<and> cluster_chain nx (d # ds) t)"

text \<open>A card on which no read fails.\<close>

definition reliable :: "device \<Rightarrow> bool" where
  "reliable dev = (\<forall>h s n. \<not> fails dev h s n)"

text \<open>
  The maximal runs of consecutive cluster numbers of a chain, each with its first
  cluster and its length: \<open>run_len c cs\<close> is the length of the run that starts at \<open>c\<close>
  when \<open>cs\<close> follows \<open>c\<close>.
\<close>

fun run_len :: "u32 \<Rightarrow> u32 list \<Rightarrow> nat" where
  "run_len c [] = 1"
| "run_len c (d # ds) = (if d = c + 1 then Suc (run_len d ds) else 1)"

function runs :: "u32 list \<Rightarrow> (u32 \<times> nat) list" where
  "runs [] = []"
| "runs (c # cs) = (c, run_len c cs) # runs (drop (run_len c cs - 1) cs)"
  by pat_completeness auto
termination
  by (relation "measure length") auto

text \<open>
  One data read per run: \<open>k\<close> clusters from cluster \<open>c\<close> on are read at once, to the
  address that follows the previous run.
\<close>

fun data_reads :: "state \<Rightarrow> u32 \<Rightarrow> (u32 \<times> nat) list \<Rightarrow> event list" where
  "data_reads st p [] = []"
| "data_reads st p ((c, k) # rs) =
     Block_read (Addr p) (data_sector_of st c) (of_nat k * ucast (cluster_size st))
       # data_reads st (p + of_nat k * ucast (cluster_size st) * FAT_BLOCK_SIZE) rs"

text \<open>
  The FAT reads along a chain: a FAT sector is read when it is not the one read last,
  starting from the sector number \<open>cached\<close>.
\<close>

fun fat_reads :: "state \<Rightarrow> u32 \<Rightarrow> u32 list \<Rightarrow> event list" where
  "fat_reads st cached [] = []"
| "fat_reads st cached (c # cs) =
     (if fat_sector_of st c \<noteq> cached then [Block_read Local (fat_sector_of st c) 1] else [])
       @ fat_reads st (fat_sector_of st c) cs"

text \<open>The cache after the FAT sector of a cluster was read.\<close>

definition cache_at :: "device \<Rightarrow> state \<Rightarrow> u32 \<Rightarrow> fat_cache" where
  "cache_at dev st c =
     \<lparr>cached_fat_sector = fat_sector_of st c, sector = blocks dev (fat_sector_of st c)\<rparr>"


section \<open>Directory entries and candidates, for the properties\<close>

text \<open>
  The \<open>i\<close>-th entry from \<open>first\<close> on; an entry that ends the directory, one that is
  skipped, and one whose name field \<open>strncmp\<close> finds equal to the name searched.
\<close>

definition entry_no :: "(u32 \<Rightarrow> u8) \<Rightarrow> u32 \<Rightarrow> nat \<Rightarrow> dir_entry" where
  "entry_no m first i = dir_entry_at m (first + of_nat i * sizeof_dir_entry)"

definition terminator :: "dir_entry \<Rightarrow> bool" where
  "terminator e = (name e ! 0 = 0)"

definition skipped :: "dir_entry \<Rightarrow> bool" where
  "skipped e = (attr e AND (ATTR_VOLUME OR ATTR_DIR) \<noteq> 0)"

definition name_matches :: "dir_entry \<Rightarrow> u8 list \<Rightarrow> bool" where
  "name_matches e nm = (strncmp (name e) nm (8 + 3) = 0)"

text \<open>
  The two candidates of a kernel load: the name of each in the configuration, the value
  that signals it to the caller, and the order in which the flag \<open>alt\<close> has them
  attempted: the primary name first when the flag is 0, the alternate name first
  otherwise.
\<close>

datatype candidate = Primary | Alternate

fun candidate_name :: "config \<Rightarrow> candidate \<Rightarrow> u8 list" where
  "candidate_name cfg Primary = FAT_BOOTFILE_NAME cfg"
| "candidate_name cfg Alternate = FAT_BOOTFILE_ALT_NAME cfg"

fun signal :: "candidate \<Rightarrow> int" where
  "signal Primary = 0"
| "signal Alternate = 1"

definition first_candidate :: "int \<Rightarrow> candidate" where
  "first_candidate alt = (if alt = 0 then Primary else Alternate)"

definition second_candidate :: "int \<Rightarrow> candidate" where
  "second_candidate alt = (if alt = 0 then Alternate else Primary)"

section \<open>A small card image\<close>

text \<open>
  A card with one partition at sector 1: one reserved sector, one FAT of one sector,
  clusters of one sector. The root directory is cluster 2 and holds one file,
  \<open>VMLINUZ BIN\<close>, in cluster 9, which is also the last cluster of the chain 3, 4, 5, 9.
\<close>

definition img_mbr :: bytes where
  "img_mbr = (\<lambda>_. 0)(446 := 0x80, 454 := 1, 510 := 0x55, 511 := 0xAA)"

definition img_boot :: bytes where
  "img_boot = (\<lambda>_. 0)(13 := 1, 14 := 1, 16 := 1, 36 := 1, 44 := 2,
     82 := 0x46, 83 := 0x41, 84 := 0x54, 85 := 0x33, 86 := 0x32)"

definition img_fat :: bytes where
  "img_fat = (\<lambda>_. 0)(0 := 0xF8, 1 := 0xFF, 2 := 0xFF, 3 := 0x0F,
     4 := 0xFF, 5 := 0xFF, 6 := 0xFF, 7 := 0x0F,
     8 := 0xFF, 9 := 0xFF, 10 := 0xFF, 11 := 0x0F,
     12 := 4, 16 := 5, 20 := 9,
     36 := 0xFF, 37 := 0xFF, 38 := 0xFF, 39 := 0x0F)"

definition img_root :: bytes where
  "img_root = (\<lambda>_. 0)(0 := 0x56, 1 := 0x4D, 2 := 0x4C, 3 := 0x49, 4 := 0x4E, 5 := 0x55,
     6 := 0x5A, 7 := 0x20, 8 := 0x42, 9 := 0x49, 10 := 0x4E, 11 := 0x20, 26 := 9)"

definition sdcard :: device where
  "sdcard =
     \<lparr>blocks = (\<lambda>s. if s = 0 then img_mbr else if s = 1 then img_boot
                    else if s = 2 then img_fat else if s = 3 then img_root else (\<lambda>_. 0x5A)),
      fails = (\<lambda>h s n. False)\<rparr>"

definition st0 :: state where
  "st0 = \<lparr>lba_fat1 = 0, lba_data = 0, root_cluster = 0, cluster_size = 0,
          mem = (\<lambda>_. 0), stack = (\<lambda>_. 0), log = []\<rparr>"

text \<open>The state once the boot sector of that card was processed.\<close>

definition st_fat :: state where
  "st_fat = st0\<lparr>lba_fat1 := 2, lba_data := 3, root_cluster := 2, cluster_size := 1\<rparr>"

text \<open>The same card with the tag \<open>FAT16\<close> in its boot sector.\<close>

definition img_boot16 :: bytes where
  "img_boot16 = img_boot(85 := 0x31, 86 := 0x36)"

definition sdcard16 :: device where
  "sdcard16 = sdcard\<lparr>blocks := (blocks sdcard)(1 := img_boot16)\<rparr>"

text \<open>
  A card whose every sector is the same FAT sector: the cluster \<open>0x0FFFFFED\<close> is
  followed by \<open>0x0FFFFFEE\<close> and \<open>0x0FFFFFEF\<close>, and the entry of the latter is
  \<open>0x0FFFFFF0\<close>.
\<close>

definition edge_fat :: bytes where
  "edge_fat = (\<lambda>_. 0)(436 := 0xEE, 437 := 0xFF, 438 := 0xFF, 439 := 0x0F,
     440 := 0xEF, 441 := 0xFF, 442 := 0xFF, 443 := 0x0F,
     444 := 0xF0, 445 := 0xFF, 446 := 0xFF, 447 := 0x0F)"

definition edge_card :: device where
  "edge_card = \<lparr>blocks = (\<lambda>s. edge_fat), fails = (\<lambda>h s n. False)\<rparr>"



text \<open>
  A card whose every sector is a FAT sector with the chain 2, 3, 4, and a geometry
  whose FAT starts at sector \<open>0xFFFFFFFF\<close>.
\<close>

definition top_fat :: bytes where
  "top_fat = (\<lambda>_. 0)(8 := 3, 12 := 4, 16 := 0xFF, 17 := 0xFF, 18 := 0xFF, 19 := 0x0F)"

definition top_card :: device where
  "top_card = \<lparr>blocks = (\<lambda>s. top_fat), fails = (\<lambda>h s n. False)\<rparr>"

definition st_top :: state where
  "st_top = st_fat\<lparr>lba_fat1 := 0xFFFFFFFF\<rparr>"

text \<open>The first card, with the FAT entry of cluster 0 set to 3.\<close>

definition free_card :: device where
  "free_card = sdcard\<lparr>blocks := (blocks sdcard)(2 := img_fat(0 := 3, 1 := 0, 2 := 0, 3 := 0))\<rparr>"

text \<open>
  The two names searched, the memory once the root directory is loaded, and the states
  of a kernel load from the first card.
\<close>

definition vmlinuz :: "u8 list" where
  "vmlinuz = [0x56, 0x4D, 0x4C, 0x49, 0x4E, 0x55, 0x5A, 0x20, 0x42, 0x49, 0x4E]"

definition mem_root :: "u32 \<Rightarrow> u8" where
  "mem_root = store_blocks sdcard 0x80000000 3 1 (\<lambda>_. 0)"

definition vmlinuz_bak :: "u8 list" where
  "vmlinuz_bak = [0x56, 0x4D, 0x4C, 0x49, 0x4E, 0x55, 0x5A, 0x20, 0x42, 0x41, 0x4B]"

text \<open>
  Three configurations: the file on the card as the primary name, as the alternate
  name, and a name that is not on the card for both.
\<close>

definition cfg0 :: config where
  "cfg0 = \<lparr>FAT_BOOTFILE_NAME = vmlinuz, FAT_BOOTFILE_ALT_NAME = vmlinuz_bak\<rparr>"

definition cfg1 :: config where
  "cfg1 = \<lparr>FAT_BOOTFILE_NAME = vmlinuz_bak, FAT_BOOTFILE_ALT_NAME = vmlinuz\<rparr>"

definition cfg2 :: config where
  "cfg2 = \<lparr>FAT_BOOTFILE_NAME = vmlinuz_bak, FAT_BOOTFILE_ALT_NAME = vmlinuz_bak\<rparr>"

text \<open>
  The states of a kernel load from the first card with the destination \<open>0x80000000\<close>:
  after the partition table, after the boot sector, after the root directory, after
  the file.
\<close>

definition st_part :: state where
  "st_part = st0\<lparr>log := [Block_read Local 0 1]\<rparr>"

definition st_boot :: state where
  "st_boot = st_fat\<lparr>log := [Block_read Local 0 1, Block_read Local 1 1, Serial_puts msg_detected]\<rparr>"

definition st_root :: state where
  "st_root = st_boot\<lparr>mem := store_blocks sdcard 0x80000000 3 1 (mem st_boot),
     log := log st_boot @ [Block_read Local 2 1, Block_read (Addr 0x80000000) 3 1]\<rparr>"

definition st_kernel :: state where
  "st_kernel = st_root\<lparr>mem := store_blocks sdcard 0x80000000 10 1 (mem st_root),
     log := log st_root @ [Serial_puts msg_loading, Block_read Local 2 1,
                           Block_read (Addr 0x80000000) 10 1]\<rparr>"

text \<open>
  The first card with sector 10, the data sector of the file, unreadable: the states
  after the failed load of the file, and after the root directory is loaded again.
\<close>

definition bad_card :: device where
  "bad_card = sdcard\<lparr>fails := (\<lambda>h s n. s = 10)\<rparr>"

definition bad_kernel :: state where
  "bad_kernel = st_root\<lparr>log := log st_root @ [Serial_puts msg_loading, Block_read Local 2 1,
                           Block_read (Addr 0x80000000) 10 1, Serial_puti 0x03]\<rparr>"

definition bad_again :: state where
  "bad_again = bad_kernel\<lparr>mem := store_blocks sdcard 0x80000000 3 1 (mem bad_kernel),
     log := log bad_kernel @ [Block_read Local 2 1, Block_read (Addr 0x80000000) 3 1]\<rparr>"

text \<open>
  The first card with sector 10 unreadable into the destination until it was tried
  once; a configuration with the name of the file for both candidates; the state after
  the file is loaded at the second try.
\<close>

definition flaky_card :: device where
  "flaky_card = sdcard\<lparr>fails := (\<lambda>h s n. s = 10 \<and> Block_read (Addr 0x80000000) 10 1 \<notin> set h)\<rparr>"

definition cfg3 :: config where
  "cfg3 = \<lparr>FAT_BOOTFILE_NAME = vmlinuz, FAT_BOOTFILE_ALT_NAME = vmlinuz\<rparr>"

definition retry_kernel :: state where
  "retry_kernel = bad_again\<lparr>mem := store_blocks sdcard 0x80000000 10 1 (mem bad_again),
     log := log bad_again @ [Serial_puts msg_loading, Block_read Local 2 1,
                             Block_read (Addr 0x80000000) 10 1]\<rparr>"

text \<open>A card with the content of the first card, where no sector but sector 10 fails.\<close>

definition same_content :: "device \<Rightarrow> bool" where
  "same_content dev = (blocks dev = blocks sdcard \<and> (\<forall>h s n. s \<noteq> 10 \<longrightarrow> \<not> fails dev h s n))"

section \<open>Properties\<close>

subsection \<open>Words and strings\<close>

lemma unat_ucast_u16: "unat (ucast (x :: u16) :: u32) = unat x"
proof -
  have "unat x < 2 ^ 16" using unsigned_less [of x] by simp
  then have "unat x < 2 ^ 32" by simp
  then show ?thesis by (simp add: unsigned_ucast_eq take_bit_nat_eq_self)
qed

lemma unat_ucast_u8: "unat (ucast (x :: u8) :: u32) = unat x"
proof -
  have "unat x < 2 ^ 8" using unsigned_less [of x] by simp
  then have "unat x < 2 ^ 32" by simp
  then show ?thesis by (simp add: unsigned_ucast_eq take_bit_nat_eq_self)
qed

text \<open>
  Against a string without NUL among its first \<open>n\<close> characters, \<open>strncmp\<close> is 0 exactly
  when the first \<open>n\<close> bytes are the same.
\<close>

lemma strncmp_zero_iff:
  "n \<le> length s \<Longrightarrow> n \<le> length t \<Longrightarrow> 0 \<notin> set (take n t) \<Longrightarrow>
     (strncmp s t n = 0) = (take n s = take n t)"
proof (induction n arbitrary: s t)
  case 0
  show ?case by simp
next
  case (Suc n)
  from Suc.prems obtain a s' where s: "s = a # s'" by (cases s) auto
  from Suc.prems obtain b t' where t: "t = b # t'" by (cases t) auto
  from Suc.prems t have nz: "b \<noteq> 0" and rest: "0 \<notin> set (take n t')" by auto
  from Suc.prems s t have len: "n \<le> length s'" "n \<le> length t'" by auto
  show ?case
    using Suc.IH [OF len rest] nz by (auto simp: s t char_at_def dest: word_uint_eqI)
qed

subsection \<open>Partition locator\<close>

text \<open>
  Claim C7. \<open>get_first_partition\<close> issues exactly one device read, of sector 0, whether
  it succeeds or fails. When that read delivers the sector: with the trailing signature
  0xAA55 and a status byte of the first partition in {0x00, 0x80} it succeeds with the
  starting LBA of that entry; with another signature or another status byte it fails.
\<close>

theorem get_first_partition_one_read:
  "filter is_read (log (snd (get_first_partition dev st)))
     = filter is_read (log st) @ [Block_read Local 0 1]
   \<and> (fails dev (log st) 0 1 \<longrightarrow> fst (get_first_partition dev st) = None)
   \<and> (\<not> fails dev (log st) 0 1 \<longrightarrow>
        (signature (mbr_of (blocks dev 0)) = 0xAA55
           \<and> status (partitions (mbr_of (blocks dev 0)) ! 0) \<in> {0x00, 0x80}
         \<longrightarrow> fst (get_first_partition dev st) = Some (lba (partitions (mbr_of (blocks dev 0)) ! 0)))
      \<and> (signature (mbr_of (blocks dev 0)) \<noteq> 0xAA55
           \<or> status (partitions (mbr_of (blocks dev 0)) ! 0) \<notin> {0x00, 0x80}
         \<longrightarrow> fst (get_first_partition dev st) = None))"
  by (auto simp: get_first_partition_def mmc_block_read_local_def serial_puti_def is_read_def)

theorem get_first_partition_one_read_witness:
  "\<not> fails sdcard (log st0) 0 1
   \<and> signature (mbr_of (blocks sdcard 0)) = 0xAA55
   \<and> status (partitions (mbr_of (blocks sdcard 0)) ! 0) \<in> {0x00, 0x80}
   \<and> fst (get_first_partition sdcard st0) = Some 1
   \<and> filter is_read (log (snd (get_first_partition sdcard st0))) = [Block_read Local 0 1]"
proof -
  have h: "\<not> fails sdcard (log st0) 0 1" by (simp add: sdcard_def)
  have s: "signature (mbr_of (blocks sdcard 0)) = 0xAA55"
    by (simp add: sdcard_def mbr_of_def img_mbr_def le16_def)
  have p: "status (partitions (mbr_of (blocks sdcard 0)) ! 0) = 0x80"
    by (simp add: sdcard_def mbr_of_def img_mbr_def)
  have l: "lba (partitions (mbr_of (blocks sdcard 0)) ! 0) = 1"
    by (simp add: sdcard_def mbr_of_def img_mbr_def le32_def)
  have e: "filter is_read (log st0) = []" by (simp add: st0_def)
  show ?thesis
    using get_first_partition_one_read [of sdcard st0] h s p l e by simp
qed

subsection \<open>Volume parser\<close>

text \<open>
  Claim C9. After a boot-sector read that succeeded, the geometry is: first-FAT sector =
  partition start + reserved-sector count; data-region start = first-FAT sector +
  sectors-per-FAT times FAT count (both modulo \<open>2 ^ 32\<close>); the root-directory cluster
  and the sectors per cluster are the fields of the boot sector as they are, whatever
  their values and whatever the filesystem tag.
\<close>

theorem process_boot_sector_geometry:
  "\<not> fails dev (log st) l 1 \<Longrightarrow>
     lba_fat1 (snd (process_boot_sector dev l st))
       = l + ucast (bs_reserved (boot_sector_of (blocks dev l)))
   \<and> lba_data (snd (process_boot_sector dev l st))
       = lba_fat1 (snd (process_boot_sector dev l st))
         + bs_fat32_length (boot_sector_of (blocks dev l))
           * ucast (bs_fats (boot_sector_of (blocks dev l)))
   \<and> root_cluster (snd (process_boot_sector dev l st))
       = bs_root_cluster (boot_sector_of (blocks dev l))
   \<and> cluster_size (snd (process_boot_sector dev l st))
       = bs_cluster_size (boot_sector_of (blocks dev l))
   \<and> unat (lba_fat1 (snd (process_boot_sector dev l st)))
       = (unat l + unat (bs_reserved (boot_sector_of (blocks dev l)))) mod 2 ^ 32
   \<and> unat (lba_data (snd (process_boot_sector dev l st)))
       = (unat (lba_fat1 (snd (process_boot_sector dev l st)))
          + unat (bs_fat32_length (boot_sector_of (blocks dev l)))
            * unat (bs_fats (boot_sector_of (blocks dev l)))) mod 2 ^ 32"
  by (simp add: process_boot_sector_def mmc_block_read_local_def set_geometry_def Let_def
      serial_puti_def serial_puts_def unat_word_ariths unat_ucast_u16 unat_ucast_u8 mod_simps)

theorem process_boot_sector_geometry_witness:
  "\<not> fails sdcard (log st0) 1 1
   \<and> lba_fat1 (snd (process_boot_sector sdcard 1 st0)) = 2
   \<and> lba_data (snd (process_boot_sector sdcard 1 st0)) = 3
   \<and> root_cluster (snd (process_boot_sector sdcard 1 st0)) = 2
   \<and> cluster_size (snd (process_boot_sector sdcard 1 st0)) = 1"
proof -
  have h: "\<not> fails sdcard (log st0) 1 1" by (simp add: sdcard_def)
  have b: "boot_sector_of (blocks sdcard 1)
      = \<lparr>bs_cluster_size = 1, bs_reserved = 1, bs_fats = 1, bs_fat32_length = 1,
         bs_root_cluster = 2\<rparr>"
    by (simp add: sdcard_def boot_sector_of_def img_boot_def le16_def le32_def)
  show ?thesis
    using process_boot_sector_geometry [OF h] h by (simp add: b)
qed

text \<open>
  Claim C1, as stated, fails: on the card whose boot sector carries the tag \<open>FAT16\<close>
  the call returns -1, and the four globals, all 0 before the call, have changed.
\<close>

theorem process_boot_sector_sets_geometry_counterexample:
  "\<not> fails sdcard16 (log st0) 1 1
   \<and> take 5 (fs_type (volume_info_of (blocks sdcard16 1))) \<noteq> FAT32_tag
   \<and> fst (process_boot_sector sdcard16 1 st0) = - 1
   \<and> lba_fat1 st0 = 0 \<and> lba_fat1 (snd (process_boot_sector sdcard16 1 st0)) = 2
   \<and> lba_data st0 = 0 \<and> lba_data (snd (process_boot_sector sdcard16 1 st0)) = 3
   \<and> root_cluster st0 = 0 \<and> root_cluster (snd (process_boot_sector sdcard16 1 st0)) = 2
   \<and> cluster_size st0 = 0 \<and> cluster_size (snd (process_boot_sector sdcard16 1 st0)) = 1"
  by code_simp

text \<open>
  Claim C1, amended. For every boot sector that was read and whose filesystem tag
  differs from \<open>FAT32\<close> in its first 5 bytes, \<open>process_boot_sector\<close> fails: it returns -1
  after the diagnostic code 0x05. By then the four geometry values have been
  overwritten with the values derived from that boot sector: the first-FAT sector is
  the partition start plus the reserved-sector count, the data-region start is that
  sector plus sectors-per-FAT times FAT count, the root-directory cluster and the
  cluster size are the fields of the boot sector. Nothing else changes but the log.
\<close>

theorem process_boot_sector_not_fat32:
  "\<not> fails dev (log st) l 1 \<Longrightarrow>
   take 5 (fs_type (volume_info_of (blocks dev l))) \<noteq> FAT32_tag \<Longrightarrow>
     process_boot_sector dev l st =
       (- 1, st\<lparr>lba_fat1 := l + ucast (bs_reserved (boot_sector_of (blocks dev l))),
                lba_data := l + ucast (bs_reserved (boot_sector_of (blocks dev l)))
                            + bs_fat32_length (boot_sector_of (blocks dev l))
                              * ucast (bs_fats (boot_sector_of (blocks dev l))),
                root_cluster := bs_root_cluster (boot_sector_of (blocks dev l)),
                cluster_size := bs_cluster_size (boot_sector_of (blocks dev l)),
                log := log st @ [Block_read Local l 1, Serial_puti 0x05]\<rparr>)"
proof -
  assume ok: "\<not> fails dev (log st) l 1"
    and tag: "take 5 (fs_type (volume_info_of (blocks dev l))) \<noteq> FAT32_tag"
  have "(strncmp (fs_type (volume_info_of (blocks dev l))) FAT32_tag 5 = 0)
      = (take 5 (fs_type (volume_info_of (blocks dev l))) = take 5 FAT32_tag)"
    by (rule strncmp_zero_iff) (simp_all add: volume_info_of_def field_def FAT32_tag_def)
  with tag have "strncmp (fs_type (volume_info_of (blocks dev l))) FAT32_tag 5 \<noteq> 0"
    by (simp add: FAT32_tag_def)
  with ok show ?thesis
    by (simp add: process_boot_sector_def mmc_block_read_local_def set_geometry_def Let_def
        serial_puti_def)
qed

theorem process_boot_sector_not_fat32_witness:
  "\<not> fails sdcard16 (log st0) 1 1
   \<and> take 5 (fs_type (volume_info_of (blocks sdcard16 1))) \<noteq> FAT32_tag
   \<and> process_boot_sector sdcard16 1 st0
       = (- 1, st0\<lparr>lba_fat1 := 2, lba_data := 3, root_cluster := 2, cluster_size := 1,
                  log := [Block_read Local 1 1, Serial_puti 0x05]\<rparr>)"
proof -
  have h: "\<not> fails sdcard16 (log st0) 1 1" by (simp add: sdcard16_def sdcard_def)
  have t: "take 5 (fs_type (volume_info_of (blocks sdcard16 1))) \<noteq> FAT32_tag"
    by (simp add: sdcard16_def volume_info_of_def field_def img_boot16_def FAT32_tag_def upt_rec)
  have b: "boot_sector_of (blocks sdcard16 1)
      = \<lparr>bs_cluster_size = 1, bs_reserved = 1, bs_fats = 1, bs_fat32_length = 1,
         bs_root_cluster = 2\<rparr>"
    by (simp add: sdcard16_def sdcard_def boot_sector_of_def img_boot16_def img_boot_def le16_def le32_def)
  show ?thesis
    using process_boot_sector_not_fat32 [OF h t] h t by (simp add: b st0_def)
qed

subsection \<open>Cluster-chain loader: walking along a chain\<close>

lemma fat_sector_of_log [simp]: "fat_sector_of (st\<lparr>log := l\<rparr>) c = fat_sector_of st c"
  by (simp add: fat_sector_of_def)

lemma fat_sector_of_mem [simp]: "fat_sector_of (st\<lparr>mem := m\<rparr>) c = fat_sector_of st c"
  by (simp add: fat_sector_of_def)

lemma data_sector_of_log [simp]: "data_sector_of (st\<lparr>log := l\<rparr>) c = data_sector_of st c"
  by (simp add: data_sector_of_def)

lemma fat_next_log [simp]: "fat_next dev (st\<lparr>log := l\<rparr>) = fat_next dev st"
  by (simp add: fat_next_def fun_eq_iff)

lemma fat_next_mem [simp]: "fat_next dev (st\<lparr>mem := m\<rparr>) = fat_next dev st"
  by (simp add: fat_next_def fun_eq_iff)

lemma cache_at_log [simp]: "cache_at dev (st\<lparr>log := l\<rparr>) c = cache_at dev st c"
  by (simp add: cache_at_def)

lemma fat_reads_log [simp]: "fat_reads (st\<lparr>log := l\<rparr>) k cs = fat_reads st k cs"
  by (induction cs arbitrary: k) simp_all

lemma run_len_pos: "0 < run_len c cs"
  by (induction cs arbitrary: c) simp_all


lemma read_fat_reliable:
  assumes "reliable dev"
    and "fat_sector_of st c = cached_fat_sector fc \<longrightarrow> fc = cache_at dev st c"
  shows "read_fat dev fc c st =
     (Some (cache_at dev st c), st\<lparr>log := log st @ fat_reads st (cached_fat_sector fc) [c]\<rparr>)"
  using assms by (auto simp: read_fat_def mmc_block_read_local_def reliable_def cache_at_def)

lemma load_inner_run:
  assumes "reliable dev"
    and "cluster_chain (fat_next dev st) (c # cs) t"
    and "t \<noteq> last (c # cs) + 1"
    and "fat_sector_of st c = cached_fat_sector fc \<longrightarrow> fc = cache_at dev st c"
  shows "load_inner dev fc c num st =
     (Some (cache_at dev st (last (take (run_len c cs) (c # cs))),
            fat_next dev st (last (take (run_len c cs) (c # cs))),
            num + of_nat (run_len c cs - 1) * ucast (cluster_size st)),
      st\<lparr>log := log st @ fat_reads st (cached_fat_sector fc) (take (run_len c cs) (c # cs))\<rparr>)"
  using assms
proof (induction cs arbitrary: c fc num st)
  case Nil
  then show ?case
    by (subst load_inner.simps) (simp add: read_fat_reliable fat_next_def cache_at_def)
next
  case (Cons d ds)
  have rf: "read_fat dev fc c st =
     (Some (cache_at dev st c), st\<lparr>log := log st @ fat_reads st (cached_fat_sector fc) [c]\<rparr>)"
    using Cons.prems by (intro read_fat_reliable) simp_all
  have nx: "next_cluster (sector (cache_at dev st c)) c = d"
    using Cons.prems(2) by (simp add: fat_next_def cache_at_def)
  show ?case
  proof (cases "d = c + 1")
    case True
    let ?st1 = "st\<lparr>log := log st @ fat_reads st (cached_fat_sector fc) [c]\<rparr>"
    have ih: "load_inner dev (cache_at dev st c) d (num + ucast (cluster_size st)) ?st1 =
      (Some (cache_at dev ?st1 (last (take (run_len d ds) (d # ds))),
            fat_next dev ?st1 (last (take (run_len d ds) (d # ds))),
            (num + ucast (cluster_size st)) + of_nat (run_len d ds - 1) * ucast (cluster_size ?st1)),
       ?st1\<lparr>log := log ?st1 @ fat_reads ?st1 (cached_fat_sector (cache_at dev st c)) (take (run_len d ds) (d # ds))\<rparr>)"
      using Cons.prems by (intro Cons.IH) (auto simp: cache_at_def)
    have k: "0 < run_len d ds" by (rule run_len_pos)
    then obtain k' where k': "run_len d ds = Suc k'" by (cases "run_len d ds") auto
    have ne: "take (run_len d ds) (d # ds) \<noteq> []"
      using k' by simp
    show ?thesis
      using True rf nx ih k' ne
      by (subst load_inner.simps) (simp add: cache_at_def algebra_simps)
  next
    case False
    then show ?thesis
      using rf nx by (subst load_inner.simps) (simp add: fat_next_def cache_at_def)
  qed
qed


lemma data_sector_of_mem [simp]: "data_sector_of (st\<lparr>mem := m\<rparr>) c = data_sector_of st c"
  by (simp add: data_sector_of_def)

lemma cache_at_mem [simp]: "cache_at dev (st\<lparr>mem := m\<rparr>) c = cache_at dev st c"
  by (simp add: cache_at_def)

lemma fat_reads_mem [simp]: "fat_reads (st\<lparr>mem := m\<rparr>) k cs = fat_reads st k cs"
  by (induction cs arbitrary: k) simp_all

lemma data_reads_log [simp]: "data_reads (st\<lparr>log := l\<rparr>) p rs = data_reads st p rs"
  by (induction rs arbitrary: p) auto

lemma data_reads_mem [simp]: "data_reads (st\<lparr>mem := m\<rparr>) p rs = data_reads st p rs"
  by (induction rs arbitrary: p) auto

lemma fat_reads_append:
  "fat_reads st k (xs @ ys) =
     fat_reads st k xs @ fat_reads st (if xs = [] then k else fat_sector_of st (last xs)) ys"
  by (induction xs arbitrary: k) simp_all

lemma fat_reads_are_fat: "filter is_fat_read (fat_reads st k cs) = fat_reads st k cs"
  by (induction cs arbitrary: k) (simp_all add: is_fat_read_def)

lemma fat_reads_not_data: "filter is_data_read (fat_reads st k cs) = []"
  by (induction cs arbitrary: k) (simp_all add: is_data_read_def)

lemma fat_reads_are_reads: "e \<in> set (fat_reads st k cs) \<Longrightarrow> is_read e"
  by (induction cs arbitrary: k) (auto simp: is_read_def split: if_splits)

lemma chain_after_run_end:
  assumes "cluster_chain nx (c # cs) t" and "drop (run_len c cs - 1) cs = []"
  shows "take (run_len c cs) (c # cs) = c # cs \<and> nx (last (c # cs)) = t \<and> end_of_chain t
    \<and> run_len c cs = Suc (length cs)"
  using assms
proof (induction cs arbitrary: c)
  case Nil
  then show ?case by simp
next
  case (Cons d ds)
  show ?case
  proof (cases "d = c + 1")
    case True
    with Cons.prems have "cluster_chain nx (d # ds) t" and "drop (run_len d ds - 1) ds = []"
      using run_len_pos [of d ds] by (auto simp: drop_Cons' split: if_splits)
    from Cons.IH [OF this] True show ?thesis by simp
  next
    case False
    with Cons.prems show ?thesis by simp
  qed
qed

lemma chain_after_run_more:
  assumes "cluster_chain nx (c # cs) t" and "drop (run_len c cs - 1) cs = d # ds"
  shows "nx (last (take (run_len c cs) (c # cs))) = d \<and> \<not> end_of_chain d
    \<and> cluster_chain nx (d # ds) t \<and> last (d # ds) = last (c # cs)
    \<and> length cs = run_len c cs - 1 + length (d # ds)
    \<and> c # cs = take (run_len c cs) (c # cs) @ d # ds"
  using assms
proof (induction cs arbitrary: c)
  case Nil
  then show ?case by simp
next
  case (Cons e es)
  show ?case
  proof (cases "e = c + 1")
    case True
    with Cons.prems have "cluster_chain nx (e # es) t" and "drop (run_len e es - 1) es = d # ds"
      using run_len_pos [of e es] by (auto simp: drop_Cons' split: if_splits)
    from Cons.IH [OF this] True run_len_pos [of e es] show ?thesis by auto
  next
    case False
    with Cons.prems show ?thesis by auto
  qed
qed


lemma load_outer_chain:
  assumes rel: "reliable dev"
  shows "cluster_chain (fat_next dev st) (c # cs) t \<Longrightarrow> t \<noteq> last (c # cs) + 1 \<Longrightarrow>
    (fat_sector_of st c = cached_fat_sector fc \<longrightarrow> fc = cache_at dev st c) \<Longrightarrow>
    \<exists>m evs. load_outer dev fc c ld st =
        Some (ld + of_nat (Suc (length cs)) * ucast (cluster_size st) * FAT_BLOCK_SIZE,
              st\<lparr>mem := m, log := log st @ evs\<rparr>)
      \<and> filter is_data_read evs = data_reads st ld (runs (c # cs))
      \<and> filter is_fat_read evs = fat_reads st (cached_fat_sector fc) (c # cs)
      \<and> (\<forall>e\<in>set evs. is_read e)"
proof (induction "length cs" arbitrary: c cs fc ld st rule: less_induct)
  case less
  define k where "k = run_len c cs"
  define run where "run = take k (c # cs)"
  define csz :: u32 where "csz = ucast (cluster_size st)"
  define fevs where "fevs = fat_reads st (cached_fat_sector fc) run"
  define rd where "rd = Block_read (Addr ld) (data_sector_of st c) (of_nat k * csz)"
  define st2 where "st2 = st\<lparr>mem := store_blocks dev ld (data_sector_of st c) (of_nat k * csz) (mem st),
      log := log st @ fevs @ [rd]\<rparr>"
  have kpos: "0 < k" unfolding k_def by (rule run_len_pos)
  have run_ne: "run \<noteq> []" using kpos by (simp add: run_def)
  have num: "csz + of_nat (k - 1) * csz = of_nat k * csz"
    using kpos by (cases k) (simp_all add: algebra_simps)
  have "load_inner dev fc c csz st =
      (Some (cache_at dev st (last run), fat_next dev st (last run), csz + of_nat (k - 1) * csz),
       st\<lparr>log := log st @ fevs\<rparr>)"
    unfolding k_def run_def fevs_def csz_def by (rule load_inner_run [OF rel less.prems])
  then have inner: "load_inner dev fc c csz st =
      (Some (cache_at dev st (last run), fat_next dev st (last run), of_nat k * csz),
       st\<lparr>log := log st @ fevs\<rparr>)"
    unfolding num .
  have rdm: "mmc_block_read_mem dev ld (data_sector_of st c) (of_nat k * csz) (st\<lparr>log := log st @ fevs\<rparr>)
      = (False, st2)"
    using rel by (simp add: mmc_block_read_mem_def reliable_def st2_def rd_def)
  have rd_data: "is_data_read rd" "\<not> is_fat_read rd" "is_read rd"
    by (simp_all add: rd_def is_data_read_def is_fat_read_def is_read_def)
  have ff: "filter is_fat_read fevs = fevs" "filter is_data_read fevs = []"
      "\<forall>e\<in>set fevs. is_read e"
    unfolding fevs_def by (auto simp: fat_reads_are_fat fat_reads_not_data dest: fat_reads_are_reads)
  have runs_eq: "runs (c # cs) = (c, k) # runs (drop (k - 1) cs)"
    by (simp add: k_def)
  have "load_outer dev fc c ld st =
     (case load_inner dev fc c csz st of
        (None, st1) \<Rightarrow> Some (NULL, st1)
      | (Some (fc1, cluster1, num_data_sectors), st1) \<Rightarrow>
          (case mmc_block_read_mem dev ld (data_sector_of st c) num_data_sectors st1 of
             (failed, st2) \<Rightarrow>
               if failed then Some (NULL, serial_puti 0x03 st2)
               else if cluster1 \<ge> 0x0ffffff0 \<or> cluster1 \<le> 1
               then Some (ld + num_data_sectors * FAT_BLOCK_SIZE, st2)
               else load_outer dev fc1 cluster1 (ld + num_data_sectors * FAT_BLOCK_SIZE) st2))"
    unfolding csz_def by (rule load_outer.simps)
  then have body: "load_outer dev fc c ld st =
     (if end_of_chain (fat_next dev st (last run))
      then Some (ld + of_nat k * csz * FAT_BLOCK_SIZE, st2)
      else load_outer dev (cache_at dev st (last run)) (fat_next dev st (last run))
             (ld + of_nat k * csz * FAT_BLOCK_SIZE) st2)"
    by (simp add: inner rdm end_of_chain_def)
  show ?case
  proof (cases "drop (k - 1) cs")
    case Nil
    from chain_after_run_end [OF less.prems(1)] Nil
    have full: "run = c # cs" and nx: "fat_next dev st (last run) = t"
      and eoc: "end_of_chain t" and len: "k = Suc (length cs)"
      by (simp_all add: k_def run_def)
    have "load_outer dev fc c ld st = Some (ld + of_nat k * csz * FAT_BLOCK_SIZE, st2)"
      using eoc nx by (simp add: body)
    moreover have "st2 = st\<lparr>mem := mem st2, log := log st @ fevs @ [rd]\<rparr>"
      by (simp add: st2_def)
    moreover have "filter is_data_read (fevs @ [rd]) = data_reads st ld (runs (c # cs))"
      using rd_data Nil by (simp add: runs_eq ff rd_def csz_def del: runs.simps(2))
    moreover have "fevs = fat_reads st (cached_fat_sector fc) (c # cs)"
      unfolding fevs_def full ..
    then have "filter is_fat_read (fevs @ [rd]) = fat_reads st (cached_fat_sector fc) (c # cs)"
      using rd_data ff by simp
    moreover have "\<forall>e\<in>set (fevs @ [rd]). is_read e"
      using rd_data ff by simp
    ultimately show ?thesis
      unfolding len csz_def by metis
  next
    case (Cons d ds)
    from chain_after_run_more [OF less.prems(1)] Cons
    have nx: "fat_next dev st (last run) = d" and neoc: "\<not> end_of_chain d"
      and ch: "cluster_chain (fat_next dev st) (d # ds) t" and la: "last (d # ds) = last (c # cs)"
      and len: "length cs = k - 1 + length (d # ds)" and split: "c # cs = run @ d # ds"
      by (simp_all add: k_def run_def)
    have lt: "length ds < length cs" using len by simp
    have ch2: "cluster_chain (fat_next dev st2) (d # ds) t"
      using ch by (simp add: st2_def)
    have t2: "t \<noteq> last (d # ds) + 1"
      using less.prems(2) la by simp
    have c2: "fat_sector_of st2 d = cached_fat_sector (cache_at dev st (last run))
        \<longrightarrow> cache_at dev st (last run) = cache_at dev st2 d"
      by (simp add: st2_def cache_at_def)
    from less.hyps [OF lt ch2 t2 c2, of "ld + of_nat k * csz * FAT_BLOCK_SIZE"]
    obtain m evs where rec: "load_outer dev (cache_at dev st (last run)) d
          (ld + of_nat k * csz * FAT_BLOCK_SIZE) st2 =
        Some (ld + of_nat k * csz * FAT_BLOCK_SIZE
                + of_nat (Suc (length ds)) * ucast (cluster_size st2) * FAT_BLOCK_SIZE,
              st2\<lparr>mem := m, log := log st2 @ evs\<rparr>)"
      and dr: "filter is_data_read evs
          = data_reads st2 (ld + of_nat k * csz * FAT_BLOCK_SIZE) (runs (d # ds))"
      and fr: "filter is_fat_read evs
          = fat_reads st2 (cached_fat_sector (cache_at dev st (last run))) (d # ds)"
      and rr: "\<forall>e\<in>set evs. is_read e"
      by blast
    have step: "load_outer dev fc c ld st =
        load_outer dev (cache_at dev st (last run)) d (ld + of_nat k * csz * FAT_BLOCK_SIZE) st2"
      using neoc nx by (simp add: body)
    have ptr: "ld + of_nat k * csz * FAT_BLOCK_SIZE
                + of_nat (Suc (length ds)) * ucast (cluster_size st2) * FAT_BLOCK_SIZE
        = ld + of_nat (Suc (length cs)) * ucast (cluster_size st) * FAT_BLOCK_SIZE"
    proof -
      have "Suc (length cs) = k + Suc (length ds)" using len kpos by simp
      then show ?thesis by (simp add: st2_def csz_def algebra_simps)
    qed
    have st: "st2\<lparr>mem := m, log := log st2 @ evs\<rparr> = st\<lparr>mem := m, log := log st @ fevs @ [rd] @ evs\<rparr>"
      by (simp add: st2_def)
    have "filter is_data_read (fevs @ [rd] @ evs) = data_reads st ld (runs (c # cs))"
      using rd_data dr Cons
      by (simp add: runs_eq ff rd_def csz_def st2_def del: runs.simps(2))
    moreover have "fat_reads st (cached_fat_sector fc) (c # cs)
        = fevs @ fat_reads st (fat_sector_of st (last run)) (d # ds)"
      unfolding split fevs_def using run_ne by (simp add: fat_reads_append del: fat_reads.simps)
    then have "filter is_fat_read (fevs @ [rd] @ evs) = fat_reads st (cached_fat_sector fc) (c # cs)"
      using rd_data fr ff by (simp add: st2_def cache_at_def del: fat_reads.simps)
    moreover have "\<forall>e\<in>set (fevs @ [rd] @ evs). is_read e"
      using rd_data rr ff by auto
    ultimately show ?thesis
      unfolding step rec ptr st by blast
  qed
qed


text \<open>
  On a reliable card, along a chain whose end-of-chain value is not the number after
  its last cluster, and with the FAT sector of the first cluster not numbered
  \<open>0xFFFFFFFF\<close>: \<open>load_from_cluster\<close> returns, the pointer has advanced by the size of
  all the clusters of the chain, and its reads are those of the chain.
\<close>

lemma load_from_cluster_chain:
  assumes "reliable dev" and "cluster_chain (fat_next dev st) (c # cs) t"
    and "t \<noteq> last (c # cs) + 1" and "fat_sector_of st c \<noteq> - 1"
  shows "\<exists>m evs. load_from_cluster dev c ld st =
        Some (ld + of_nat (Suc (length cs)) * ucast (cluster_size st) * FAT_BLOCK_SIZE,
              st\<lparr>mem := m, log := log st @ evs\<rparr>)
      \<and> filter is_data_read evs = data_reads st ld (runs (c # cs))
      \<and> filter is_fat_read evs = fat_reads st (- 1) (c # cs)
      \<and> (\<forall>e\<in>set evs. is_read e)"
proof -
  have "fat_sector_of st c = cached_fat_sector \<lparr>cached_fat_sector = - 1, sector = stack st\<rparr>
      \<longrightarrow> \<lparr>cached_fat_sector = - 1, sector = stack st\<rparr> = cache_at dev st c"
    using assms(4) by simp
  from load_outer_chain [OF assms(1,2,3) this, of ld] show ?thesis
    by (simp add: load_from_cluster_def)
qed




lemma fat_reads_same_sector:
  "\<forall>x\<in>set cs. fat_sector_of st x = f \<Longrightarrow>
     fat_reads st k cs = (if cs = [] \<or> k = f then [] else [Block_read Local f 1])"
  by (induction cs arbitrary: k) auto

lemma unat_minus_two: "unat (c - 2 :: u32) = (unat c + 2 ^ 32 - 2) mod 2 ^ 32"
proof -
  have "c - 2 = c + (- 2)" by simp
  moreover have "unat (- 2 :: u32) = 2 ^ 32 - 2" by simp
  ultimately have "unat (c - 2) = (unat c + (2 ^ 32 - 2)) mod 2 ^ 32"
    by (simp only: unat_word_ariths) simp
  then show ?thesis by (simp add: add.commute)
qed

lemma sdcard_reliable: "reliable sdcard"
  by (simp add: reliable_def sdcard_def)

subsection \<open>Cluster-chain loader: one data read per run\<close>

text \<open>
  Claim C2, as stated, fails: the chain \<open>0x0FFFFFED\<close>, \<open>0x0FFFFFEE\<close>, \<open>0x0FFFFFEF\<close>
  is contiguous and is followed by the end-of-chain value \<open>0x0FFFFFF0\<close>, yet the one
  data read asks for 4 times \<open>cluster_size\<close> sectors, not 3 times: the end-of-chain
  value is the number after the last cluster, and the inner loop takes it for one more
  cluster of the run.
\<close>

theorem load_from_cluster_one_read_per_run_counterexample:
  "reliable edge_card
   \<and> cluster_chain (fat_next edge_card st_fat) [0x0FFFFFED, 0x0FFFFFEE, 0x0FFFFFEF] 0x0FFFFFF0
   \<and> fat_sector_of st_fat 0x0FFFFFED \<noteq> - 1
   \<and> cluster_size st_fat = 1
   \<and> filter is_data_read (log (snd (the (load_from_cluster edge_card 0x0FFFFFED 0x80000000 st_fat))))
       = [Block_read (Addr 0x80000000) 0x0FFFFFEE 4]"
proof -
  have "reliable edge_card" by (simp add: reliable_def edge_card_def)
  moreover have "cluster_chain (fat_next edge_card st_fat) [0x0FFFFFED, 0x0FFFFFEE, 0x0FFFFFEF] 0x0FFFFFF0
   \<and> fat_sector_of st_fat 0x0FFFFFED \<noteq> - 1
   \<and> cluster_size st_fat = 1
   \<and> filter is_data_read (log (snd (the (load_from_cluster edge_card 0x0FFFFFED 0x80000000 st_fat))))
       = [Block_read (Addr 0x80000000) 0x0FFFFFEE 4]"
    by code_simp
  ultimately show ?thesis by blast
qed

text \<open>
  Claim C2, amended. On a card whose reads succeed, for every finite cluster chain
  whose end-of-chain value is not the number after its last cluster (and whose first
  FAT sector is not sector \<open>0xFFFFFFFF\<close>), \<open>load_from_cluster\<close> issues exactly one data
  read per maximal run of consecutive cluster numbers: a run of \<open>k\<close> clusters from
  cluster \<open>c\<close> on is one read of \<open>k\<close> times \<open>cluster_size\<close> sectors at sector
  \<open>lba_data + (c - 2) * cluster_size\<close>. The chain \<open>c\<close>, \<open>c + 1\<close>, \<open>c + 2\<close> gives one
  data read of 3 times \<open>cluster_size\<close> sectors, the chain \<open>c\<close>, \<open>c + 5\<close> two data reads
  of \<open>cluster_size\<close> sectors each.
\<close>

theorem load_from_cluster_one_read_per_run:
  assumes "reliable dev" and "cluster_chain (fat_next dev st) (c # cs) t"
    and "t \<noteq> last (c # cs) + 1" and "fat_sector_of st c \<noteq> - 1"
  shows "\<exists>p st'. load_from_cluster dev c ld st = Some (p, st')
      \<and> filter is_data_read (log st')
          = filter is_data_read (log st) @ data_reads st ld (runs (c # cs))
      \<and> (cs = [c + 1, c + 2] \<longrightarrow> data_reads st ld (runs (c # cs))
            = [Block_read (Addr ld) (lba_data st + (c - 2) * ucast (cluster_size st))
                 (3 * ucast (cluster_size st))])
      \<and> (cs = [c + 5] \<longrightarrow> data_reads st ld (runs (c # cs))
            = [Block_read (Addr ld) (lba_data st + (c - 2) * ucast (cluster_size st))
                 (ucast (cluster_size st)),
               Block_read (Addr (ld + ucast (cluster_size st) * FAT_BLOCK_SIZE))
                 (lba_data st + (c + 5 - 2) * ucast (cluster_size st))
                 (ucast (cluster_size st))])"
proof -
  from load_from_cluster_chain [OF assms, of ld]
  obtain m evs where "load_from_cluster dev c ld st =
        Some (ld + of_nat (Suc (length cs)) * ucast (cluster_size st) * FAT_BLOCK_SIZE,
              st\<lparr>mem := m, log := log st @ evs\<rparr>)"
    and "filter is_data_read evs = data_reads st ld (runs (c # cs))"
    by blast
  then have "\<exists>p st'. load_from_cluster dev c ld st = Some (p, st')
      \<and> filter is_data_read (log st')
          = filter is_data_read (log st) @ data_reads st ld (runs (c # cs))"
    by simp
  moreover have "cs = [c + 1, c + 2] \<longrightarrow> data_reads st ld (runs (c # cs))
            = [Block_read (Addr ld) (lba_data st + (c - 2) * ucast (cluster_size st))
                 (3 * ucast (cluster_size st))]"
    by (simp add: data_sector_of_def)
  moreover have "cs = [c + 5] \<longrightarrow> data_reads st ld (runs (c # cs))
            = [Block_read (Addr ld) (lba_data st + (c - 2) * ucast (cluster_size st))
                 (ucast (cluster_size st)),
               Block_read (Addr (ld + ucast (cluster_size st) * FAT_BLOCK_SIZE))
                 (lba_data st + (c + 5 - 2) * ucast (cluster_size st))
                 (ucast (cluster_size st))]"
    by (simp add: data_sector_of_def)
  ultimately show ?thesis by blast
qed

theorem load_from_cluster_one_read_per_run_witness:
  "reliable sdcard
   \<and> cluster_chain (fat_next sdcard st_fat) [3, 4, 5, 9] 0x0FFFFFFF
   \<and> (0x0FFFFFFF :: u32) \<noteq> last [3, 4, 5, 9] + 1
   \<and> fat_sector_of st_fat 3 \<noteq> - 1
   \<and> (\<exists>p st'. load_from_cluster sdcard 3 0x80000000 st_fat = Some (p, st')
         \<and> filter is_data_read (log st')
             = [Block_read (Addr 0x80000000) 4 3, Block_read (Addr 0x80000600) 10 1])"
proof -
  have c: "cluster_chain (fat_next sdcard st_fat) (3 # [4, 5, 9]) 0x0FFFFFFF" by code_simp
  have t: "(0x0FFFFFFF :: u32) \<noteq> last (3 # [4, 5, 9]) + 1" by simp
  have f: "fat_sector_of st_fat 3 \<noteq> - 1" by code_simp
  have d: "data_reads st_fat 0x80000000 (runs (3 # [4, 5, 9]))
      = [Block_read (Addr 0x80000000) 4 3, Block_read (Addr 0x80000600) 10 1]"
    by code_simp
  have l: "filter is_data_read (log st_fat) = []" by code_simp
  from load_from_cluster_one_read_per_run [OF sdcard_reliable c t f, of "0x80000000"]
  have "\<exists>p st'. load_from_cluster sdcard 3 0x80000000 st_fat = Some (p, st')
         \<and> filter is_data_read (log st')
             = [Block_read (Addr 0x80000000) 4 3, Block_read (Addr 0x80000600) 10 1]"
    unfolding d l by auto
  with sdcard_reliable c t f show ?thesis by simp
qed

subsection \<open>Cluster-chain loader: termination\<close>








subsection \<open>Cluster-chain loader: the cached FAT sector\<close>

text \<open>
  Claim C6, as stated, fails: with the FAT at sector \<open>0xFFFFFFFF\<close>, the entries of the
  contiguous chain 2, 3, 4 all lie in that FAT sector, and no FAT sector is read at
  all: \<open>cached_fat_sector\<close> starts as \<open>0xFFFFFFFF\<close>, so the first look-up takes what
  the buffer on the stack holds.
\<close>

theorem load_from_cluster_fat_reads_counterexample:
  "reliable top_card
   \<and> cluster_chain (fat_next top_card st_top) [2, 3, 4] 0x0FFFFFFF
   \<and> fat_sector_of st_top 2 = 0xFFFFFFFF \<and> fat_sector_of st_top 3 = 0xFFFFFFFF
   \<and> fat_sector_of st_top 4 = 0xFFFFFFFF
   \<and> load_from_cluster top_card 2 0x80000000 st_top \<noteq> None
   \<and> filter is_fat_read (log (snd (the (load_from_cluster top_card 2 0x80000000 st_top)))) = []"
proof -
  have "reliable top_card" by (simp add: reliable_def top_card_def)
  moreover have "cluster_chain (fat_next top_card st_top) [2, 3, 4] 0x0FFFFFFF
   \<and> fat_sector_of st_top 2 = 0xFFFFFFFF \<and> fat_sector_of st_top 3 = 0xFFFFFFFF
   \<and> fat_sector_of st_top 4 = 0xFFFFFFFF
   \<and> load_from_cluster top_card 2 0x80000000 st_top \<noteq> None
   \<and> filter is_fat_read (log (snd (the (load_from_cluster top_card 2 0x80000000 st_top)))) = []"
    by code_simp
  ultimately show ?thesis by blast
qed

text \<open>
  Claim C6, amended. A look-up of the FAT entry of a cluster issues a FAT-sector read
  only when the FAT sector of that cluster, \<open>lba_fat1 + cluster / (FAT_BLOCK_SIZE / 4)\<close>,
  differs from the cached FAT sector, and then exactly one. On a card whose reads
  succeed, for a chain whose end-of-chain value is not the number after its last
  cluster and whose first FAT sector is not sector \<open>0xFFFFFFFF\<close>, the initial value of
  the cache, the FAT reads of the whole call are those of the clusters whose FAT
  sector differs from the one read last; when all the entries of the chain lie in one
  FAT sector, exactly one FAT-sector read is issued.
\<close>

theorem load_from_cluster_fat_reads:
  assumes "reliable dev" and "cluster_chain (fat_next dev st) (c # cs) t"
    and "t \<noteq> last (c # cs) + 1" and "fat_sector_of st c \<noteq> - 1"
  shows "(fat_sector_of st x = cached_fat_sector fc \<longrightarrow> read_fat dev fc x st = (Some fc, st))
      \<and> (fat_sector_of st x \<noteq> cached_fat_sector fc \<longrightarrow>
            filter is_read (log (snd (read_fat dev fc x st)))
              = filter is_read (log st) @ [Block_read Local (fat_sector_of st x) 1])
      \<and> (\<exists>p st'. load_from_cluster dev c ld st = Some (p, st')
            \<and> filter is_fat_read (drop (length (log st)) (log st')) = fat_reads st (- 1) (c # cs)
            \<and> ((\<forall>y\<in>set (c # cs). fat_sector_of st y = fat_sector_of st c) \<longrightarrow>
                 filter is_fat_read (drop (length (log st)) (log st'))
                   = [Block_read Local (fat_sector_of st c) 1]))"
proof -
  have one: "fat_sector_of st x = cached_fat_sector fc \<longrightarrow> read_fat dev fc x st = (Some fc, st)"
    by (simp add: read_fat_def)
  have two: "fat_sector_of st x \<noteq> cached_fat_sector fc \<longrightarrow>
            filter is_read (log (snd (read_fat dev fc x st)))
              = filter is_read (log st) @ [Block_read Local (fat_sector_of st x) 1]"
    by (simp add: read_fat_def mmc_block_read_local_def serial_puti_def is_read_def)
  from load_from_cluster_chain [OF assms, of ld]
  obtain m evs where l: "load_from_cluster dev c ld st =
        Some (ld + of_nat (Suc (length cs)) * ucast (cluster_size st) * FAT_BLOCK_SIZE,
              st\<lparr>mem := m, log := log st @ evs\<rparr>)"
    and f: "filter is_fat_read evs = fat_reads st (- 1) (c # cs)"
    by blast
  have same: "(\<forall>y\<in>set (c # cs). fat_sector_of st y = fat_sector_of st c) \<longrightarrow>
      fat_reads st (- 1) (c # cs) = [Block_read Local (fat_sector_of st c) 1]"
    using assms(4) fat_reads_same_sector [of "c # cs" st "fat_sector_of st c" "- 1"]
    by (simp del: fat_reads.simps)
  show ?thesis
    using one two l f same by (simp del: fat_reads.simps)
qed

theorem load_from_cluster_fat_reads_witness:
  "reliable sdcard
   \<and> cluster_chain (fat_next sdcard st_fat) [3, 4, 5, 9] 0x0FFFFFFF
   \<and> (0x0FFFFFFF :: u32) \<noteq> last [3, 4, 5, 9] + 1
   \<and> fat_sector_of st_fat 3 \<noteq> - 1
   \<and> fat_sector_of st_fat 3 = 2 \<and> fat_sector_of st_fat 4 = 2
   \<and> fat_sector_of st_fat 5 = 2 \<and> fat_sector_of st_fat 9 = 2
   \<and> (\<exists>p st'. load_from_cluster sdcard 3 0x80000000 st_fat = Some (p, st')
         \<and> filter is_fat_read (drop (length (log st_fat)) (log st')) = [Block_read Local 2 1])"
proof -
  have c: "cluster_chain (fat_next sdcard st_fat) (3 # [4, 5, 9]) 0x0FFFFFFF" by code_simp
  have t: "(0x0FFFFFFF :: u32) \<noteq> last (3 # [4, 5, 9]) + 1" by simp
  have f: "fat_sector_of st_fat 3 \<noteq> - 1" by code_simp
  have s: "fat_sector_of st_fat 3 = 2" "fat_sector_of st_fat 4 = 2"
    "fat_sector_of st_fat 5 = 2" "fat_sector_of st_fat 9 = 2"
    by code_simp+
  from load_from_cluster_fat_reads [OF sdcard_reliable c t f, of 3 "\<lparr>cached_fat_sector = - 1, sector = stack st_fat\<rparr>" "0x80000000"]
  have "\<exists>p st'. load_from_cluster sdcard 3 0x80000000 st_fat = Some (p, st')
         \<and> filter is_fat_read (drop (length (log st_fat)) (log st')) = [Block_read Local 2 1]"
    using s by (auto simp del: fat_reads.simps)
  with sdcard_reliable c t f s show ?thesis by simp
qed

subsection \<open>Cluster-chain loader: the start cluster\<close>

text \<open>
  Claim C10, as stated, fails: the start cluster 0 satisfies the termination
  condition, every read succeeds, and the call issues three data reads and returns the
  destination advanced by 5 sectors, not by \<open>cluster_size\<close> = 1 sector: the test after
  the first data read is on the successor of the start cluster, which is 3 here.
\<close>

theorem load_from_cluster_start_not_checked_counterexample:
  "reliable free_card
   \<and> end_of_chain 0
   \<and> cluster_size st_fat = 1
   \<and> fst (the (load_from_cluster free_card 0 0x80000000 st_fat)) = 0x80000A00
   \<and> filter is_data_read (log (snd (the (load_from_cluster free_card 0 0x80000000 st_fat))))
       = [Block_read (Addr 0x80000000) 1 1, Block_read (Addr 0x80000200) 4 3,
          Block_read (Addr 0x80000800) 10 1]"
proof -
  have "reliable free_card" by (simp add: reliable_def free_card_def sdcard_def)
  moreover have "end_of_chain 0
   \<and> cluster_size st_fat = 1
   \<and> fst (the (load_from_cluster free_card 0 0x80000000 st_fat)) = 0x80000A00
   \<and> filter is_data_read (log (snd (the (load_from_cluster free_card 0 0x80000000 st_fat))))
       = [Block_read (Addr 0x80000000) 1 1, Block_read (Addr 0x80000200) 4 3,
          Block_read (Addr 0x80000800) 10 1]"
    by code_simp
  ultimately show ?thesis by blast
qed

text \<open>
  Claim C10, amended. For every start cluster, whether it satisfies the termination
  condition or not, \<open>load_from_cluster\<close> does not test the start cluster. When the
  reads succeed, the FAT sector of the start cluster is not sector \<open>0xFFFFFFFF\<close>, and
  the FAT entry of the start cluster (its low 28 bits) is at least \<open>0x0FFFFFF0\<close> or at
  most 1 without being the start cluster plus 1, the call performs one FAT-sector
  read, then one data read of \<open>cluster_size\<close> sectors into the destination at sector
  \<open>lba_data + (start - 2) * cluster_size\<close> modulo \<open>2 ^ 32\<close> (which wraps around for start
  clusters below 2), and returns the destination advanced by \<open>cluster_size\<close> times the
  sector size.
\<close>

theorem load_from_cluster_start_not_checked:
  assumes "reliable dev" and "end_of_chain (fat_next dev st c)"
    and "fat_next dev st c \<noteq> c + 1" and "fat_sector_of st c \<noteq> - 1"
  shows "load_from_cluster dev c ld st =
      Some (ld + ucast (cluster_size st) * FAT_BLOCK_SIZE,
            st\<lparr>mem := store_blocks dev ld (lba_data st + (c - 2) * ucast (cluster_size st))
                        (ucast (cluster_size st)) (mem st),
               log := log st @ [Block_read Local (fat_sector_of st c) 1,
                                Block_read (Addr ld) (lba_data st + (c - 2) * ucast (cluster_size st))
                                  (ucast (cluster_size st))]\<rparr>)
    \<and> unat (lba_data st + (c - 2) * ucast (cluster_size st))
        = (unat (lba_data st) + unat (c - 2) * unat (cluster_size st)) mod 2 ^ 32
    \<and> unat (c - 2) = (unat c + 2 ^ 32 - 2) mod 2 ^ 32"
proof -
  let ?fc = "\<lparr>cached_fat_sector = - 1, sector = stack st\<rparr>"
  have ch: "cluster_chain (fat_next dev st) [c] (fat_next dev st c)"
    using assms(2) by simp
  have t: "fat_next dev st c \<noteq> last [c] + 1"
    using assms(3) by simp
  have cache: "fat_sector_of st c = cached_fat_sector ?fc \<longrightarrow> ?fc = cache_at dev st c"
    using assms(4) by simp
  have inner: "load_inner dev ?fc c (ucast (cluster_size st)) st =
      (Some (cache_at dev st c, fat_next dev st c, ucast (cluster_size st)),
       st\<lparr>log := log st @ [Block_read Local (fat_sector_of st c) 1]\<rparr>)"
    using load_inner_run [OF assms(1) ch t cache, of "ucast (cluster_size st)"] assms(4)
    by simp
  have "load_from_cluster dev c ld st =
      Some (ld + ucast (cluster_size st) * FAT_BLOCK_SIZE,
            st\<lparr>mem := store_blocks dev ld (lba_data st + (c - 2) * ucast (cluster_size st))
                        (ucast (cluster_size st)) (mem st),
               log := log st @ [Block_read Local (fat_sector_of st c) 1,
                                Block_read (Addr ld) (lba_data st + (c - 2) * ucast (cluster_size st))
                                  (ucast (cluster_size st))]\<rparr>)"
    unfolding load_from_cluster_def
    using assms(1,2)
    by (subst load_outer.simps)
       (simp add: inner mmc_block_read_mem_def reliable_def end_of_chain_def data_sector_of_def)
  moreover have "unat (lba_data st + (c - 2) * ucast (cluster_size st))
        = (unat (lba_data st) + unat (c - 2) * unat (cluster_size st)) mod 2 ^ 32"
    by (simp add: unat_word_ariths unat_ucast_u8 mod_simps)
  ultimately show ?thesis using unat_minus_two [of c] by simp
qed

theorem load_from_cluster_start_not_checked_witness:
  "reliable sdcard
   \<and> end_of_chain 0
   \<and> end_of_chain (fat_next sdcard st_fat 0)
   \<and> fat_next sdcard st_fat 0 \<noteq> 0 + 1
   \<and> fat_sector_of st_fat 0 \<noteq> - 1
   \<and> fst (the (load_from_cluster sdcard 0 0x80000000 st_fat)) = 0x80000200
   \<and> log (snd (the (load_from_cluster sdcard 0 0x80000000 st_fat)))
       = [Block_read Local 2 1, Block_read (Addr 0x80000000) 1 1]
   \<and> unat (lba_data st_fat) = 3 \<and> unat (0 - 2 :: u32) = 2 ^ 32 - 2"
proof -
  have e0: "end_of_chain 0" by code_simp
  have e: "end_of_chain (fat_next sdcard st_fat 0)" by code_simp
  have n: "fat_next sdcard st_fat 0 \<noteq> 0 + 1" by code_simp
  have f: "fat_sector_of st_fat 0 \<noteq> - 1" by code_simp
  have v: "fat_sector_of st_fat 0 = 2" "lba_data st_fat = 3" "cluster_size st_fat = 1" "log st_fat = []"
    by code_simp+
  from load_from_cluster_start_not_checked [OF sdcard_reliable e n f, of "0x80000000"]
  have "fst (the (load_from_cluster sdcard 0 0x80000000 st_fat)) = 0x80000200
   \<and> log (snd (the (load_from_cluster sdcard 0 0x80000000 st_fat)))
       = [Block_read Local 2 1, Block_read (Addr 0x80000000) 1 1]
   \<and> unat (0 - 2 :: u32) = 2 ^ 32 - 2"
    by (simp add: v FAT_BLOCK_SIZE_def)
  with sdcard_reliable e0 e n f v show ?thesis by simp
qed



subsection \<open>Directory search\<close>

lemma entry_ptr_neq:
  assumes "Suc n < 2 ^ 27"
  shows "first \<noteq> first + of_nat (Suc n) * sizeof_dir_entry"
proof -
  have "unat (of_nat (Suc n) * sizeof_dir_entry :: u32) = Suc n * 32"
  proof -
    have "Suc n * 32 < 2 ^ 32" using assms by simp
    then show ?thesis
      by (simp add: sizeof_dir_entry_def unat_word_ariths unat_of_nat take_bit_nat_eq_self)
  qed
  then have "of_nat (Suc n) * sizeof_dir_entry \<noteq> (0 :: u32)"
    by (metis Zero_not_Suc mult_eq_0_iff unat_0 zero_neq_numeral)
  then show ?thesis by simp
qed

lemma find_file_scan:
  "endp = first + of_nat n * sizeof_dir_entry \<Longrightarrow> n < 2 ^ 27 \<Longrightarrow>
   \<exists>k. k \<le> n
     \<and> (\<forall>i<k. \<not> terminator (entry_no m first i)
            \<and> (skipped (entry_no m first i) \<or> \<not> name_matches (entry_no m first i) nm))
     \<and> (k < n \<and> \<not> terminator (entry_no m first k) \<and> \<not> skipped (entry_no m first k)
          \<and> name_matches (entry_no m first k) nm
          \<and> find_file m first endp nm = Some (first + of_nat k * sizeof_dir_entry)
        \<or> (k = n \<or> terminator (entry_no m first k)) \<and> find_file m first endp nm = Some NULL)"
proof (induction n arbitrary: first)
  case 0
  then have "find_file m first endp nm = Some NULL"
    by (subst find_file.simps) simp
  then show ?case by (intro exI [of _ 0]) simp
next
  case (Suc n)
  let ?e = "dir_entry_at m first"
  have e0: "entry_no m first 0 = ?e" by (simp add: entry_no_def)
  have ne: "first \<noteq> endp"
    using Suc.prems entry_ptr_neq [of n first] by simp
  have shift: "entry_no m (first + sizeof_dir_entry) i = entry_no m first (Suc i)" for i
    by (simp add: entry_no_def algebra_simps)
  have endp': "endp = (first + sizeof_dir_entry) + of_nat n * sizeof_dir_entry"
    using Suc.prems(1) by (simp add: algebra_simps)
  have n': "n < 2 ^ 27" using Suc.prems(2) by simp
  from Suc.IH [OF endp' n'] obtain k where k: "k \<le> n"
    and before: "\<forall>i<k. \<not> terminator (entry_no m first (Suc i))
            \<and> (skipped (entry_no m first (Suc i)) \<or> \<not> name_matches (entry_no m first (Suc i)) nm)"
    and at: "k < n \<and> \<not> terminator (entry_no m first (Suc k)) \<and> \<not> skipped (entry_no m first (Suc k))
          \<and> name_matches (entry_no m first (Suc k)) nm
          \<and> find_file m (first + sizeof_dir_entry) endp nm
              = Some (first + of_nat (Suc k) * sizeof_dir_entry)
        \<or> (k = n \<or> terminator (entry_no m first (Suc k)))
          \<and> find_file m (first + sizeof_dir_entry) endp nm = Some NULL"
    unfolding shift by (auto simp: algebra_simps)
  consider (stop) "terminator ?e"
    | (hit) "\<not> terminator ?e" "\<not> skipped ?e" "name_matches ?e nm"
    | (pass) "\<not> terminator ?e" "skipped ?e \<or> \<not> name_matches ?e nm"
    by blast
  then show ?case
  proof cases
    case stop
    then have "find_file m first endp nm = Some NULL"
      by (subst find_file.simps) (simp add: terminator_def)
    with stop show ?thesis by (intro exI [of _ 0]) (simp add: e0)
  next
    case hit
    then have "find_file m first endp nm = Some first"
      using ne by (subst find_file.simps) (simp add: terminator_def skipped_def name_matches_def)
    with hit show ?thesis by (intro exI [of _ 0]) (simp add: e0)
  next
    case pass
    then have step: "find_file m first endp nm = find_file m (first + sizeof_dir_entry) endp nm"
      using ne by (subst find_file.simps) (auto simp: terminator_def skipped_def name_matches_def)
    have "\<forall>i<Suc k. \<not> terminator (entry_no m first i)
            \<and> (skipped (entry_no m first i) \<or> \<not> name_matches (entry_no m first i) nm)"
      using before pass by (auto simp: less_Suc_eq_0_disj e0)
    with k at show ?thesis
      unfolding step by (intro exI [of _ "Suc k"]) auto
  qed
qed

lemma name_matches_bytes:
  assumes "length nm = 11" and "0 \<notin> set nm"
  shows "name_matches (dir_entry_at m p) nm = (name (dir_entry_at m p) = nm)"
proof -
  have len: "length (name (dir_entry_at m p)) = 11"
    by (simp add: dir_entry_at_def field_def Let_def)
  have "(strncmp (name (dir_entry_at m p)) nm 11 = 0)
      = (take 11 (name (dir_entry_at m p)) = take 11 nm)"
    using assms len by (intro strncmp_zero_iff) simp_all
  with assms len show ?thesis by (simp add: name_matches_def)
qed

text \<open>
  Claim C8. For every range of \<open>n\<close> entries from \<open>first\<close> to \<open>endp\<close> and every name
  searched, \<open>find_file\<close> returns, and there is a number \<open>k\<close> of entries it has passed
  in order: none of them ends the directory, and each is skipped (volume-label or
  directory bit set) or does not match. Then either entry \<open>k\<close> is in the range, does not
  end the directory, is not skipped and matches, and it is the entry returned; or the
  range is exhausted or entry \<open>k\<close> has a name whose first byte is 0, and \<open>NULL\<close> is
  returned. For a name of 11 bytes without NUL, to match is to have the same 11 bytes
  in the name field, padding included.
\<close>

theorem find_file_first_match:
  assumes "endp = first + of_nat n * sizeof_dir_entry" and "n < 2 ^ 27"
  shows "(\<exists>k. k \<le> n
     \<and> (\<forall>i<k. \<not> terminator (entry_no m first i)
            \<and> (skipped (entry_no m first i) \<or> \<not> name_matches (entry_no m first i) nm))
     \<and> (k < n \<and> \<not> terminator (entry_no m first k) \<and> \<not> skipped (entry_no m first k)
          \<and> name_matches (entry_no m first k) nm
          \<and> find_file m first endp nm = Some (first + of_nat k * sizeof_dir_entry)
        \<or> (k = n \<or> terminator (entry_no m first k)) \<and> find_file m first endp nm = Some NULL))
   \<and> (length nm = 11 \<and> 0 \<notin> set nm \<longrightarrow>
        (\<forall>i. name_matches (entry_no m first i) nm = (name (entry_no m first i) = nm)))"
  using find_file_scan [OF assms, of m nm] name_matches_bytes [of nm m]
  by (simp add: entry_no_def)

theorem find_file_first_match_witness:
  "(0x80000200 :: u32) = 0x80000000 + of_nat 16 * sizeof_dir_entry \<and> (16 :: nat) < 2 ^ 27
   \<and> length vmlinuz = 11 \<and> 0 \<notin> set vmlinuz
   \<and> find_file mem_root 0x80000000 0x80000200 vmlinuz = Some 0x80000000
   \<and> name_matches (entry_no mem_root 0x80000000 0) vmlinuz
   \<and> name (entry_no mem_root 0x80000000 0) = vmlinuz
   \<and> terminator (entry_no mem_root 0x80000000 1)
   \<and> find_file mem_root 0x80000000 0x80000200 vmlinuz_bak = Some NULL"
proof -
  have r: "(0x80000200 :: u32) = 0x80000000 + of_nat 16 * sizeof_dir_entry"
    by (simp add: sizeof_dir_entry_def)
  have n: "(16 :: nat) < 2 ^ 27" by simp
  have v: "length vmlinuz = 11" "0 \<notin> set vmlinuz" by (simp_all add: vmlinuz_def)
  have f: "find_file mem_root 0x80000000 0x80000200 vmlinuz = Some 0x80000000"
    "find_file mem_root 0x80000000 0x80000200 vmlinuz_bak = Some NULL"
    "name_matches (entry_no mem_root 0x80000000 0) vmlinuz"
    "terminator (entry_no mem_root 0x80000000 1)"
    by code_simp+
  from find_file_first_match [OF r n, where m = mem_root and nm = vmlinuz] v f(3)
  have "name (entry_no mem_root 0x80000000 0) = vmlinuz" by simp
  with r n v f show ?thesis by simp
qed

subsection \<open>Kernel load\<close>

lemma kernel_loop_2:
  "kernel_loop cfg dev ld alt 2 ds de err st =
     (if err \<noteq> 0 then Some (err, st) else Some (- 1, serial_puti 0x07 st))"
  by (subst kernel_loop.simps) simp

lemma kernel_loop_first:
  assumes "load_from_cluster dev (root_cluster st2) ld st2 = Some (dir_end, st3)" and "dir_end \<noteq> NULL"
  shows "kernel_loop cfg dev ld alt 0 NULL x 0 st2 =
     (case find_file (mem st3) ld dir_end
             (if alt = 0 then FAT_BOOTFILE_NAME cfg else FAT_BOOTFILE_ALT_NAME cfg) of
        None \<Rightarrow> None
      | Some entry \<Rightarrow>
          if entry \<noteq> NULL then
            (case load_from_cluster dev (start_cluster (dir_entry_at (mem st3) entry)) ld
                    (serial_puts msg_loading st3) of
               None \<Rightarrow> None
             | Some (p, st4) \<Rightarrow>
                 if p \<noteq> NULL then Some (if alt = 0 then 0 else 1, st4)
                 else kernel_loop cfg dev ld alt 1 NULL dir_end (- 1) st4)
          else kernel_loop cfg dev ld alt 1 ld dir_end 0 st3)"
  using assms by (subst kernel_loop.simps) (cases "alt = 0"; simp split: option.split)

lemma kernel_loop_second:
  assumes "(if ds = NULL then load_from_cluster dev (root_cluster st3) ld st3 else Some (de, st3))
      = Some (dir_end', st3')"
    and "dir_end' \<noteq> NULL" and "ds = NULL \<or> ds = ld"
  shows "kernel_loop cfg dev ld alt 1 ds de err st3 =
     (case find_file (mem st3') ld dir_end'
             (if alt = 0 then FAT_BOOTFILE_ALT_NAME cfg else FAT_BOOTFILE_NAME cfg) of
        None \<Rightarrow> None
      | Some entry \<Rightarrow>
          if entry \<noteq> NULL then
            (case load_from_cluster dev (start_cluster (dir_entry_at (mem st3') entry)) ld
                    (serial_puts msg_loading st3') of
               None \<Rightarrow> None
             | Some (p, st4) \<Rightarrow>
                 if p \<noteq> NULL then Some (if alt = 0 then 1 else 0, st4)
                 else Some (- 1, st4))
          else if err \<noteq> 0 then Some (err, st3') else Some (- 1, serial_puti 0x07 st3'))"
  using assms
  by (subst kernel_loop.simps)
     (cases "alt = 0"; cases "ds = NULL"; simp add: kernel_loop_2 split: option.split)

text \<open>
  A result other than -1 comes from a chain load that succeeded, in the second round or
  in the first, after a partition and a boot sector that were read.
\<close>

lemma kernel_loop_1_loaded:
  assumes "kernel_loop cfg dev ld alt 1 ds de err st = Some (r, s)" and "r \<noteq> - 1"
    and "err = 0 \<or> err = - 1" and "ds = NULL \<or> ds = ld \<and> de \<noteq> NULL"
  shows "r = signal (second_candidate alt)
    \<and> (\<exists>de' st' e p.
         (if ds = NULL then load_from_cluster dev (root_cluster st) ld st else Some (de, st))
            = Some (de', st')
         \<and> de' \<noteq> NULL
         \<and> find_file (mem st') ld de' (candidate_name cfg (second_candidate alt)) = Some e
         \<and> e \<noteq> NULL
         \<and> load_from_cluster dev (start_cluster (dir_entry_at (mem st') e)) ld
              (serial_puts msg_loading st') = Some (p, s)
         \<and> p \<noteq> NULL)"
  using assms
  apply (subst (asm) kernel_loop.simps)
  apply (cases "alt = 0"; cases "ds = NULL")
  apply (auto simp: kernel_loop_2 second_candidate_def split: option.splits if_splits prod.splits)
  done


lemma kernel_loop_0_loaded:
  assumes run: "kernel_loop cfg dev ld alt 0 NULL x 0 st2 = Some (r, s)" and r: "r \<noteq> - 1"
  shows "\<exists>dir_end st3.
      load_from_cluster dev (root_cluster st2) ld st2 = Some (dir_end, st3) \<and> dir_end \<noteq> NULL
    \<and> (r = signal (first_candidate alt)
         \<and> (\<exists>e p. find_file (mem st3) ld dir_end (candidate_name cfg (first_candidate alt)) = Some e
               \<and> e \<noteq> NULL
               \<and> load_from_cluster dev (start_cluster (dir_entry_at (mem st3) e)) ld
                    (serial_puts msg_loading st3) = Some (p, s)
               \<and> p \<noteq> NULL)
       \<or> r = signal (second_candidate alt)
         \<and> find_file (mem st3) ld dir_end (candidate_name cfg (first_candidate alt)) = Some NULL
         \<and> (\<exists>de' st' e p.
               (if ld = NULL then load_from_cluster dev (root_cluster st3) ld st3
                else Some (dir_end, st3)) = Some (de', st')
               \<and> de' \<noteq> NULL
               \<and> find_file (mem st') ld de' (candidate_name cfg (second_candidate alt)) = Some e
               \<and> e \<noteq> NULL
               \<and> load_from_cluster dev (start_cluster (dir_entry_at (mem st') e)) ld
                    (serial_puts msg_loading st') = Some (p, s)
               \<and> p \<noteq> NULL)
       \<or> r = signal (second_candidate alt)
         \<and> (\<exists>e st4 de' st' e2 p2.
               find_file (mem st3) ld dir_end (candidate_name cfg (first_candidate alt)) = Some e
               \<and> e \<noteq> NULL
               \<and> load_from_cluster dev (start_cluster (dir_entry_at (mem st3) e)) ld
                    (serial_puts msg_loading st3) = Some (NULL, st4)
               \<and> load_from_cluster dev (root_cluster st4) ld st4 = Some (de', st')
               \<and> de' \<noteq> NULL
               \<and> find_file (mem st') ld de' (candidate_name cfg (second_candidate alt)) = Some e2
               \<and> e2 \<noteq> NULL
               \<and> load_from_cluster dev (start_cluster (dir_entry_at (mem st') e2)) ld
                    (serial_puts msg_loading st') = Some (p2, s)
               \<and> p2 \<noteq> NULL))"
proof -
  have nm: "(if alt = 0 then FAT_BOOTFILE_NAME cfg else FAT_BOOTFILE_ALT_NAME cfg)
      = candidate_name cfg (first_candidate alt)"
    by (simp add: first_candidate_def)
  have sg: "(if alt = 0 then 0 else 1) = signal (first_candidate alt)"
    by (simp add: first_candidate_def)
  obtain dir_end st3 where root: "load_from_cluster dev (root_cluster st2) ld st2 = Some (dir_end, st3)"
    using run by (subst (asm) kernel_loop.simps) (auto split: option.splits)
  have root_ok: "dir_end \<noteq> NULL"
    using run r root by (subst (asm) kernel_loop.simps) (auto split: option.splits if_splits)
  note first = kernel_loop_first [OF root root_ok, of cfg alt x, unfolded nm sg]
  obtain e where f: "find_file (mem st3) ld dir_end (candidate_name cfg (first_candidate alt)) = Some e"
    using run unfolding first by (auto split: option.splits)
  show ?thesis
  proof (cases "e = NULL")
    case True
    with run f have go: "kernel_loop cfg dev ld alt 1 ld dir_end 0 st3 = Some (r, s)"
      unfolding first by simp
    from kernel_loop_1_loaded [OF go r] root_ok True f root show ?thesis by auto
  next
    case False
    obtain p st4 where l: "load_from_cluster dev (start_cluster (dir_entry_at (mem st3) e)) ld
        (serial_puts msg_loading st3) = Some (p, st4)"
      using run f False unfolding first by (auto split: option.splits)
    show ?thesis
    proof (cases "p = NULL")
      case True
      with run f False l have go: "kernel_loop cfg dev ld alt 1 NULL dir_end (- 1) st4 = Some (r, s)"
        unfolding first by simp
      from kernel_loop_1_loaded [OF go r] obtain de' st' e2 p2 where
        "r = signal (second_candidate alt)"
        "load_from_cluster dev (root_cluster st4) ld st4 = Some (de', st')" "de' \<noteq> NULL"
        "find_file (mem st') ld de' (candidate_name cfg (second_candidate alt)) = Some e2"
        "e2 \<noteq> NULL"
        "load_from_cluster dev (start_cluster (dir_entry_at (mem st') e2)) ld
              (serial_puts msg_loading st') = Some (p2, s)" "p2 \<noteq> NULL"
        by auto
      with root root_ok f False l True show ?thesis by blast
    next
      case pn: False
      with run f False l have "r = signal (first_candidate alt)" "s = st4"
        unfolding first by simp_all
      with root root_ok f False l pn show ?thesis by blast
    qed
  qed
qed

lemma mmc_load_kernel_loop:
  assumes "mmc_load_kernel cfg dev ld alt st = Some (r, s)" and "r \<noteq> - 1"
  shows "\<exists>l st1 st2. get_first_partition dev st = (Some l, st1)
     \<and> process_boot_sector dev l st1 = (0, st2)
     \<and> kernel_loop cfg dev ld alt 0 NULL NULL 0 st2 = Some (r, s)"
proof -
  have pb: "fst (process_boot_sector dev l s) = 0 \<or> fst (process_boot_sector dev l s) = - 1" for l s
    by (simp add: process_boot_sector_def mmc_block_read_local_def Let_def split: prod.splits option.splits)
  obtain lo st1 where p: "get_first_partition dev st = (lo, st1)" by (cases "get_first_partition dev st")
  with assms obtain l where lo: "lo = Some l" by (cases lo) (auto simp: mmc_load_kernel_def)
  obtain err st2 where b: "process_boot_sector dev l st1 = (err, st2)" by (cases "process_boot_sector dev l st1")
  with pb [of l st1] have "err = 0 \<or> err = - 1" by simp
  with assms p lo b have "err = 0" by (auto simp: mmc_load_kernel_def)
  with assms p lo b show ?thesis by (simp add: mmc_load_kernel_def)
qed


text \<open>
  A load of one batch: the successor of the start cluster ends the chain. Then the
  states of the kernel load from the card image.
\<close>

lemma load_single:
  assumes "fat_sector_of st c \<noteq> - 1"
    and "\<not> fails dev (log st) (fat_sector_of st c) 1"
    and "fat_next dev st c \<noteq> c + 1" and "end_of_chain (fat_next dev st c)"
  shows "load_from_cluster dev c ld st =
    (if fails dev (log st @ [Block_read Local (fat_sector_of st c) 1])
          (data_sector_of st c) (ucast (cluster_size st))
     then Some (NULL, st\<lparr>log := log st @ [Block_read Local (fat_sector_of st c) 1,
                   Block_read (Addr ld) (data_sector_of st c) (ucast (cluster_size st)),
                   Serial_puti 0x03]\<rparr>)
     else Some (ld + ucast (cluster_size st) * FAT_BLOCK_SIZE,
            st\<lparr>mem := store_blocks dev ld (data_sector_of st c) (ucast (cluster_size st)) (mem st),
               log := log st @ [Block_read Local (fat_sector_of st c) 1,
                   Block_read (Addr ld) (data_sector_of st c) (ucast (cluster_size st))]\<rparr>))"
proof -
  have inner: "load_inner dev \<lparr>cached_fat_sector = - 1, sector = stack st\<rparr> c (ucast (cluster_size st)) st
      = (Some (cache_at dev st c, fat_next dev st c, ucast (cluster_size st)),
         st\<lparr>log := log st @ [Block_read Local (fat_sector_of st c) 1]\<rparr>)"
    using assms(1,2,3)
    by (subst load_inner.simps)
       (simp add: read_fat_def mmc_block_read_local_def fat_next_def cache_at_def)
  show ?thesis
    unfolding load_from_cluster_def using assms(4)
    by (subst load_outer.simps)
       (simp add: inner mmc_block_read_mem_def end_of_chain_def serial_puti_def)
qed


lemma same_content_cards: "same_content sdcard" "same_content bad_card"
  by (simp_all add: same_content_def sdcard_def bad_card_def)

lemma card_values:
  "signature (mbr_of (blocks sdcard 0)) = 0xAA55"
  "status (partitions (mbr_of (blocks sdcard 0)) ! 0) = 0x80"
  "lba (partitions (mbr_of (blocks sdcard 0)) ! 0) = 1"
  "boot_sector_of (blocks sdcard 1)
     = \<lparr>bs_cluster_size = 1, bs_reserved = 1, bs_fats = 1, bs_fat32_length = 1, bs_root_cluster = 2\<rparr>"
  "strncmp (fs_type (volume_info_of (blocks sdcard 1))) FAT32_tag 5 = 0"
  by code_simp+

lemma card_part:
  assumes "same_content dev"
  shows "get_first_partition dev st0 = (Some 1, st_part)"
proof -
  have "\<not> fails dev (log st0) 0 1" "blocks dev 0 = blocks sdcard 0"
    using assms by (simp_all add: same_content_def)
  then show ?thesis
    by (simp add: get_first_partition_def mmc_block_read_local_def card_values st_part_def st0_def)
qed

lemma card_boot:
  assumes "same_content dev"
  shows "process_boot_sector dev 1 st_part = (0, st_boot)"
proof -
  have "\<not> fails dev (log st_part) 1 1" "blocks dev 1 = blocks sdcard 1"
    using assms by (simp_all add: same_content_def)
  then show ?thesis
    by (simp add: process_boot_sector_def mmc_block_read_local_def card_values set_geometry_def
        serial_puts_def st_part_def st_boot_def st_fat_def st0_def)
qed

lemma boot_values:
  "root_cluster st_boot = 2" "cluster_size st_boot = 1"
  "fat_sector_of st_boot 2 = 2" "fat_sector_of st_boot 9 = 2"
  "data_sector_of st_boot 2 = 3" "data_sector_of st_boot 9 = 10"
  "fat_next sdcard st_boot 2 = 0x0FFFFFFF" "fat_next sdcard st_boot 9 = 0x0FFFFFFF"
  "end_of_chain 0x0FFFFFFF"
  by code_simp+

lemma same_content_next:
  assumes "same_content dev"
  shows "fat_next dev st = fat_next sdcard st" and "store_blocks dev = store_blocks sdcard"
proof -
  from assms have b: "blocks dev = blocks sdcard" by (simp add: same_content_def)
  show "fat_next dev st = fat_next sdcard st"
    by (rule ext) (simp add: fat_next_def b)
  show "store_blocks dev = store_blocks sdcard"
    by (intro ext) (simp add: store_blocks_def b)
qed

lemma geometry_kept:
  "fat_sector_of (st\<lparr>mem := m, log := l\<rparr>) c = fat_sector_of st c"
  "data_sector_of (st\<lparr>mem := m, log := l\<rparr>) c = data_sector_of st c"
  "fat_next dev (serial_puts s st) = fat_next dev st"
  "fat_sector_of (serial_puts s st) c = fat_sector_of st c"
  "data_sector_of (serial_puts s st) c = data_sector_of st c"
  by (simp_all add: fat_sector_of_def data_sector_of_def fat_next_def serial_puts_def fun_eq_iff)

lemma card_root:
  assumes "same_content dev"
  shows "load_from_cluster dev (root_cluster st_boot) 0x80000000 st_boot = Some (0x80000200, st_root)"
proof -
  have nf: "\<not> fails dev h 2 n" "\<not> fails dev h 3 n" for h n
    using assms by (simp_all add: same_content_def)
  have "load_from_cluster dev 2 0x80000000 st_boot = Some (0x80000200, st_root)"
    by (subst load_single)
       (simp_all add: boot_values same_content_next [OF assms] nf st_root_def FAT_BLOCK_SIZE_def)
  then show ?thesis by (simp add: boot_values)
qed

lemma root_values:
  "find_file (mem st_root) 0x80000000 0x80000200 vmlinuz = Some 0x80000000"
  "find_file (mem st_root) 0x80000000 0x80000200 vmlinuz_bak = Some NULL"
  "start_cluster (dir_entry_at (mem st_root) 0x80000000) = 9"
  "cluster_size st_root = 1" "fat_sector_of st_root 9 = 2" "data_sector_of st_root 9 = 10"
  "fat_next sdcard st_root 9 = 0x0FFFFFFF"
  by code_simp+

lemma bad_values:
  "root_cluster bad_kernel = 2" "cluster_size bad_kernel = 1"
  "fat_sector_of bad_kernel 2 = 2" "data_sector_of bad_kernel 2 = 3"
  "fat_next sdcard bad_kernel 2 = 0x0FFFFFFF"
  "find_file (mem bad_again) 0x80000000 0x80000200 vmlinuz_bak = Some NULL"
  by code_simp+

lemma serial_puts_kept: "cluster_size (serial_puts s st) = cluster_size st"
  "log (serial_puts s st) = log st @ [Serial_puts s]" "mem (serial_puts s st) = mem st"
  by (simp_all add: serial_puts_def)

lemma card_kernel:
  "load_from_cluster sdcard (start_cluster (dir_entry_at (mem st_root) 0x80000000)) 0x80000000
     (serial_puts msg_loading st_root) = Some (0x80000200, st_kernel)"
proof -
  have nf: "\<not> fails sdcard h s n" for h s n by (simp add: sdcard_def)
  have "load_from_cluster sdcard 9 0x80000000 (serial_puts msg_loading st_root)
      = Some (0x80000200, st_kernel)"
    by (subst load_single)
       (simp_all add: root_values boot_values geometry_kept serial_puts_kept nf FAT_BLOCK_SIZE_def
          st_kernel_def serial_puts_def)
  then show ?thesis by (simp add: root_values)
qed

lemma bad_kernel_load:
  "load_from_cluster bad_card (start_cluster (dir_entry_at (mem st_root) 0x80000000)) 0x80000000
     (serial_puts msg_loading st_root) = Some (NULL, bad_kernel)"
proof -
  have nf: "fails bad_card h s n = (s = 10)" for h s n by (simp add: bad_card_def)
  have "load_from_cluster bad_card 9 0x80000000 (serial_puts msg_loading st_root)
      = Some (NULL, bad_kernel)"
    by (subst load_single)
       (simp_all add: root_values boot_values geometry_kept serial_puts_kept nf
          same_content_next [OF same_content_cards(2)] bad_kernel_def serial_puts_def)
  then show ?thesis by (simp add: root_values)
qed

lemma bad_again_load:
  "load_from_cluster bad_card (root_cluster bad_kernel) 0x80000000 bad_kernel
     = Some (0x80000200, bad_again)"
proof -
  have nf: "fails bad_card h s n = (s = 10)" for h s n by (simp add: bad_card_def)
  have "load_from_cluster bad_card 2 0x80000000 bad_kernel = Some (0x80000200, bad_again)"
    by (subst load_single)
       (simp_all add: bad_values boot_values nf FAT_BLOCK_SIZE_def
          same_content_next [OF same_content_cards(2)] bad_again_def)
  then show ?thesis by (simp add: bad_values)
qed

text \<open>The loads from the card whose sector 10 is read at the second try.\<close>

lemma flaky_same: "same_content flaky_card"
  by (simp add: same_content_def flaky_card_def)

lemma flaky_fails:
  "fails flaky_card h s n = (s = 10 \<and> Block_read (Addr 0x80000000) 10 1 \<notin> set h)"
  by (simp add: flaky_card_def)

lemma flaky_log:
  "Block_read (Addr 0x80000000) 10 1 \<notin> set (log st_root)"
  "Block_read (Addr 0x80000000) 10 1 \<in> set (log bad_again)"
  by (simp_all add: bad_again_def bad_kernel_def st_root_def st_boot_def st_fat_def st0_def)

lemma flaky_kernel_load:
  "load_from_cluster flaky_card (start_cluster (dir_entry_at (mem st_root) 0x80000000)) 0x80000000
     (serial_puts msg_loading st_root) = Some (NULL, bad_kernel)"
proof -
  have "load_from_cluster flaky_card 9 0x80000000 (serial_puts msg_loading st_root)
      = Some (NULL, bad_kernel)"
    by (subst load_single)
       (simp_all add: root_values boot_values geometry_kept serial_puts_kept flaky_fails flaky_log
          same_content_next [OF flaky_same] bad_kernel_def serial_puts_def)
  then show ?thesis by (simp add: root_values)
qed

lemma flaky_again_load:
  "load_from_cluster flaky_card (root_cluster bad_kernel) 0x80000000 bad_kernel
     = Some (0x80000200, bad_again)"
proof -
  have "load_from_cluster flaky_card 2 0x80000000 bad_kernel = Some (0x80000200, bad_again)"
    by (subst load_single)
       (simp_all add: bad_values boot_values flaky_fails FAT_BLOCK_SIZE_def
          same_content_next [OF flaky_same] bad_again_def)
  then show ?thesis by (simp add: bad_values)
qed

lemma again_values:
  "find_file (mem bad_again) 0x80000000 0x80000200 vmlinuz = Some 0x80000000"
  "start_cluster (dir_entry_at (mem bad_again) 0x80000000) = 9"
  "cluster_size bad_again = 1" "fat_sector_of bad_again 9 = 2" "data_sector_of bad_again 9 = 10"
  "fat_next sdcard bad_again 9 = 0x0FFFFFFF"
  by code_simp+

lemma flaky_retry_load:
  "load_from_cluster flaky_card (start_cluster (dir_entry_at (mem bad_again) 0x80000000)) 0x80000000
     (serial_puts msg_loading bad_again) = Some (0x80000200, retry_kernel)"
proof -
  have "load_from_cluster flaky_card 9 0x80000000 (serial_puts msg_loading bad_again)
      = Some (0x80000200, retry_kernel)"
    by (subst load_single)
       (simp_all add: again_values boot_values geometry_kept serial_puts_kept flaky_fails flaky_log
          same_content_next [OF flaky_same] retry_kernel_def serial_puts_def FAT_BLOCK_SIZE_def)
  then show ?thesis by (simp add: again_values)
qed

text \<open>
  Claim C4. The candidate attempted first is the primary name when the flag \<open>alt\<close> is
  0 and the alternate name otherwise; the other one is attempted second; the value that
  signals a candidate is 0 for the primary and 1 for the alternate name. Once the
  partition, the boot sector and the root directory are read:
  when the first candidate is found and its chain load succeeds, the result is its
  signal; when it is not found, and the second is found and its chain load succeeds,
  the result is the signal of the second; when it is found and its chain load fails,
  the root directory is loaded again, and when the second is found there and its chain
  load succeeds, the result is the signal of the second.
  Conversely, a result other than -1 is reached in one of these three ways only: it is
  the signal of a candidate whose name was found in the directory that this call
  loaded, and whose chain load succeeded and left the state returned. So 0 is returned
  exactly when the primary name was loaded, and 1 exactly when the alternate name was.
  (With the destination \<open>NULL\<close> the directory is read once more before the second
  search.)
\<close>

theorem mmc_load_kernel_signals_candidate:
  "(get_first_partition dev st = (Some l, st1)
    \<and> process_boot_sector dev l st1 = (0, st2)
    \<and> load_from_cluster dev (root_cluster st2) ld st2 = Some (dir_end, st3)
    \<and> dir_end \<noteq> NULL
    \<longrightarrow>
      (find_file (mem st3) ld dir_end (candidate_name cfg (first_candidate alt)) = Some e
       \<and> e \<noteq> NULL
       \<and> load_from_cluster dev (start_cluster (dir_entry_at (mem st3) e)) ld
            (serial_puts msg_loading st3) = Some (p, st4)
       \<and> p \<noteq> NULL
       \<longrightarrow> mmc_load_kernel cfg dev ld alt st = Some (signal (first_candidate alt), st4))
    \<and> (find_file (mem st3) ld dir_end (candidate_name cfg (first_candidate alt)) = Some NULL
       \<and> (if ld = NULL then load_from_cluster dev (root_cluster st3) ld st3
           else Some (dir_end, st3)) = Some (dir_end', st3')
       \<and> dir_end' \<noteq> NULL
       \<and> find_file (mem st3') ld dir_end' (candidate_name cfg (second_candidate alt)) = Some e
       \<and> e \<noteq> NULL
       \<and> load_from_cluster dev (start_cluster (dir_entry_at (mem st3') e)) ld
            (serial_puts msg_loading st3') = Some (p, st4)
       \<and> p \<noteq> NULL
       \<longrightarrow> mmc_load_kernel cfg dev ld alt st = Some (signal (second_candidate alt), st4))
    \<and> (find_file (mem st3) ld dir_end (candidate_name cfg (first_candidate alt)) = Some e
       \<and> e \<noteq> NULL
       \<and> load_from_cluster dev (start_cluster (dir_entry_at (mem st3) e)) ld
            (serial_puts msg_loading st3) = Some (NULL, st4)
       \<and> load_from_cluster dev (root_cluster st4) ld st4 = Some (dir_end5, st5)
       \<and> dir_end5 \<noteq> NULL
       \<and> find_file (mem st5) ld dir_end5 (candidate_name cfg (second_candidate alt)) = Some e2
       \<and> e2 \<noteq> NULL
       \<and> load_from_cluster dev (start_cluster (dir_entry_at (mem st5) e2)) ld
            (serial_puts msg_loading st5) = Some (p2, st6)
       \<and> p2 \<noteq> NULL
       \<longrightarrow> mmc_load_kernel cfg dev ld alt st = Some (signal (second_candidate alt), st6)))
   \<and> (mmc_load_kernel cfg dev ld alt st = Some (r, s) \<and> r \<noteq> - 1
      \<longrightarrow> (\<exists>l st1 st2 dir_end st3.
             get_first_partition dev st = (Some l, st1)
           \<and> process_boot_sector dev l st1 = (0, st2)
           \<and> load_from_cluster dev (root_cluster st2) ld st2 = Some (dir_end, st3)
           \<and> dir_end \<noteq> NULL
           \<and> (r = signal (first_candidate alt)
                \<and> (\<exists>e p. find_file (mem st3) ld dir_end (candidate_name cfg (first_candidate alt)) = Some e
                      \<and> e \<noteq> NULL
                      \<and> load_from_cluster dev (start_cluster (dir_entry_at (mem st3) e)) ld
                           (serial_puts msg_loading st3) = Some (p, s)
                      \<and> p \<noteq> NULL)
              \<or> r = signal (second_candidate alt)
                \<and> find_file (mem st3) ld dir_end (candidate_name cfg (first_candidate alt)) = Some NULL
                \<and> (\<exists>de' st' e p.
                      (if ld = NULL then load_from_cluster dev (root_cluster st3) ld st3
                       else Some (dir_end, st3)) = Some (de', st')
                      \<and> de' \<noteq> NULL
                      \<and> find_file (mem st') ld de' (candidate_name cfg (second_candidate alt)) = Some e
                      \<and> e \<noteq> NULL
                      \<and> load_from_cluster dev (start_cluster (dir_entry_at (mem st') e)) ld
                           (serial_puts msg_loading st') = Some (p, s)
                      \<and> p \<noteq> NULL)
              \<or> r = signal (second_candidate alt)
                \<and> (\<exists>e st4 de' st' e2 p2.
                      find_file (mem st3) ld dir_end (candidate_name cfg (first_candidate alt)) = Some e
                      \<and> e \<noteq> NULL
                      \<and> load_from_cluster dev (start_cluster (dir_entry_at (mem st3) e)) ld
                           (serial_puts msg_loading st3) = Some (NULL, st4)
                      \<and> load_from_cluster dev (root_cluster st4) ld st4 = Some (de', st')
                      \<and> de' \<noteq> NULL
                      \<and> find_file (mem st') ld de' (candidate_name cfg (second_candidate alt)) = Some e2
                      \<and> e2 \<noteq> NULL
                      \<and> load_from_cluster dev (start_cluster (dir_entry_at (mem st') e2)) ld
                           (serial_puts msg_loading st') = Some (p2, s)
                      \<and> p2 \<noteq> NULL))))"
proof (intro conjI impI)
  assume h: "get_first_partition dev st = (Some l, st1)
    \<and> process_boot_sector dev l st1 = (0, st2)
    \<and> load_from_cluster dev (root_cluster st2) ld st2 = Some (dir_end, st3)
    \<and> dir_end \<noteq> NULL"
  then have part: "get_first_partition dev st = (Some l, st1)"
    and boot: "process_boot_sector dev l st1 = (0, st2)"
    and root: "load_from_cluster dev (root_cluster st2) ld st2 = Some (dir_end, st3)"
    and root_ok: "dir_end \<noteq> NULL"
    by simp_all
  have nm: "(if alt = 0 then FAT_BOOTFILE_NAME cfg else FAT_BOOTFILE_ALT_NAME cfg)
      = candidate_name cfg (first_candidate alt)"
    "(if alt = 0 then FAT_BOOTFILE_ALT_NAME cfg else FAT_BOOTFILE_NAME cfg)
      = candidate_name cfg (second_candidate alt)"
    by (simp_all add: first_candidate_def second_candidate_def)
  have sg: "(if alt = 0 then 0 else 1) = signal (first_candidate alt)"
    "(if alt = 0 then 1 else 0) = signal (second_candidate alt)"
    by (simp_all add: first_candidate_def second_candidate_def)
  have start: "mmc_load_kernel cfg dev ld alt st = kernel_loop cfg dev ld alt 0 NULL NULL 0 st2"
    using part boot by (simp add: mmc_load_kernel_def)
  note first = kernel_loop_first [OF root root_ok, of cfg alt NULL]
  {
    assume a: "find_file (mem st3) ld dir_end (candidate_name cfg (first_candidate alt)) = Some e
       \<and> e \<noteq> NULL
       \<and> load_from_cluster dev (start_cluster (dir_entry_at (mem st3) e)) ld
            (serial_puts msg_loading st3) = Some (p, st4)
       \<and> p \<noteq> NULL"
    then show "mmc_load_kernel cfg dev ld alt st = Some (signal (first_candidate alt), st4)"
      unfolding start first
      by (cases "alt = 0") (simp_all add: first_candidate_def)
  }
  {
    assume b: "find_file (mem st3) ld dir_end (candidate_name cfg (first_candidate alt)) = Some NULL
       \<and> (if ld = NULL then load_from_cluster dev (root_cluster st3) ld st3
           else Some (dir_end, st3)) = Some (dir_end', st3')
       \<and> dir_end' \<noteq> NULL
       \<and> find_file (mem st3') ld dir_end' (candidate_name cfg (second_candidate alt)) = Some e
       \<and> e \<noteq> NULL
       \<and> load_from_cluster dev (start_cluster (dir_entry_at (mem st3') e)) ld
            (serial_puts msg_loading st3') = Some (p, st4)
       \<and> p \<noteq> NULL"
    then have again: "(if ld = NULL then load_from_cluster dev (root_cluster st3) ld st3
           else Some (dir_end, st3)) = Some (dir_end', st3')" and again_ok: "dir_end' \<noteq> NULL"
      by simp_all
    have second: "kernel_loop cfg dev ld alt 1 ld dir_end 0 st3 =
       (case find_file (mem st3') ld dir_end'
               (if alt = 0 then FAT_BOOTFILE_ALT_NAME cfg else FAT_BOOTFILE_NAME cfg) of
          None \<Rightarrow> None
        | Some entry \<Rightarrow>
            if entry \<noteq> NULL then
              (case load_from_cluster dev (start_cluster (dir_entry_at (mem st3') entry)) ld
                      (serial_puts msg_loading st3') of
                 None \<Rightarrow> None
               | Some (p, st4) \<Rightarrow>
                   if p \<noteq> NULL then Some (if alt = 0 then 1 else 0, st4)
                   else Some (- 1, st4))
            else if (0 :: int) \<noteq> 0 then Some (0, st3') else Some (- 1, serial_puti 0x07 st3'))"
      by (rule kernel_loop_second [OF again again_ok]) simp
    from b show "mmc_load_kernel cfg dev ld alt st = Some (signal (second_candidate alt), st4)"
      unfolding start first second
      by (cases "alt = 0") (simp_all add: first_candidate_def second_candidate_def)
  }
  {
    assume c: "find_file (mem st3) ld dir_end (candidate_name cfg (first_candidate alt)) = Some e
       \<and> e \<noteq> NULL
       \<and> load_from_cluster dev (start_cluster (dir_entry_at (mem st3) e)) ld
            (serial_puts msg_loading st3) = Some (NULL, st4)
       \<and> load_from_cluster dev (root_cluster st4) ld st4 = Some (dir_end5, st5)
       \<and> dir_end5 \<noteq> NULL
       \<and> find_file (mem st5) ld dir_end5 (candidate_name cfg (second_candidate alt)) = Some e2
       \<and> e2 \<noteq> NULL
       \<and> load_from_cluster dev (start_cluster (dir_entry_at (mem st5) e2)) ld
            (serial_puts msg_loading st5) = Some (p2, st6)
       \<and> p2 \<noteq> NULL"
    then have reload: "load_from_cluster dev (root_cluster st4) ld st4 = Some (dir_end5, st5)"
      and reload_ok: "dir_end5 \<noteq> NULL"
      by simp_all
    have second: "kernel_loop cfg dev ld alt 1 NULL dir_end (- 1) st4 =
       (case find_file (mem st5) ld dir_end5
               (if alt = 0 then FAT_BOOTFILE_ALT_NAME cfg else FAT_BOOTFILE_NAME cfg) of
          None \<Rightarrow> None
        | Some entry \<Rightarrow>
            if entry \<noteq> NULL then
              (case load_from_cluster dev (start_cluster (dir_entry_at (mem st5) entry)) ld
                      (serial_puts msg_loading st5) of
                 None \<Rightarrow> None
               | Some (p, st4) \<Rightarrow>
                   if p \<noteq> NULL then Some (if alt = 0 then 1 else 0, st4)
                   else Some (- 1, st4))
            else if (- 1 :: int) \<noteq> 0 then Some (- 1, st5) else Some (- 1, serial_puti 0x07 st5))"
      using reload reload_ok by (intro kernel_loop_second) simp_all
    from c have f: "find_file (mem st3) ld dir_end
           (if alt = 0 then FAT_BOOTFILE_NAME cfg else FAT_BOOTFILE_ALT_NAME cfg) = Some e"
      and e: "e \<noteq> NULL"
      and l: "load_from_cluster dev (start_cluster (dir_entry_at (mem st3) e)) ld
            (serial_puts msg_loading st3) = Some (NULL, st4)"
      by (simp_all add: nm)
    have go: "mmc_load_kernel cfg dev ld alt st = kernel_loop cfg dev ld alt 1 NULL dir_end (- 1) st4"
      by (simp add: start first f e l)
    from c show "mmc_load_kernel cfg dev ld alt st = Some (signal (second_candidate alt), st6)"
      unfolding go second
      by (cases "alt = 0") (simp_all add: second_candidate_def)
  }
next
  assume "mmc_load_kernel cfg dev ld alt st = Some (r, s) \<and> r \<noteq> - 1"
  then have run: "mmc_load_kernel cfg dev ld alt st = Some (r, s)" and r: "r \<noteq> - 1"
    by simp_all
  from mmc_load_kernel_loop [OF run r] obtain l st1 st2 where
    part: "get_first_partition dev st = (Some l, st1)"
    and boot: "process_boot_sector dev l st1 = (0, st2)"
    and loop: "kernel_loop cfg dev ld alt 0 NULL NULL 0 st2 = Some (r, s)"
    by blast
  from kernel_loop_0_loaded [OF loop r, of] part boot
  show "\<exists>l st1 st2 dir_end st3.
             get_first_partition dev st = (Some l, st1)
           \<and> process_boot_sector dev l st1 = (0, st2)
           \<and> load_from_cluster dev (root_cluster st2) ld st2 = Some (dir_end, st3)
           \<and> dir_end \<noteq> NULL
           \<and> (r = signal (first_candidate alt)
                \<and> (\<exists>e p. find_file (mem st3) ld dir_end (candidate_name cfg (first_candidate alt)) = Some e
                      \<and> e \<noteq> NULL
                      \<and> load_from_cluster dev (start_cluster (dir_entry_at (mem st3) e)) ld
                           (serial_puts msg_loading st3) = Some (p, s)
                      \<and> p \<noteq> NULL)
              \<or> r = signal (second_candidate alt)
                \<and> find_file (mem st3) ld dir_end (candidate_name cfg (first_candidate alt)) = Some NULL
                \<and> (\<exists>de' st' e p.
                      (if ld = NULL then load_from_cluster dev (root_cluster st3) ld st3
                       else Some (dir_end, st3)) = Some (de', st')
                      \<and> de' \<noteq> NULL
                      \<and> find_file (mem st') ld de' (candidate_name cfg (second_candidate alt)) = Some e
                      \<and> e \<noteq> NULL
                      \<and> load_from_cluster dev (start_cluster (dir_entry_at (mem st') e)) ld
                           (serial_puts msg_loading st') = Some (p, s)
                      \<and> p \<noteq> NULL)
              \<or> r = signal (second_candidate alt)
                \<and> (\<exists>e st4 de' st' e2 p2.
                      find_file (mem st3) ld dir_end (candidate_name cfg (first_candidate alt)) = Some e
                      \<and> e \<noteq> NULL
                      \<and> load_from_cluster dev (start_cluster (dir_entry_at (mem st3) e)) ld
                           (serial_puts msg_loading st3) = Some (NULL, st4)
                      \<and> load_from_cluster dev (root_cluster st4) ld st4 = Some (de', st')
                      \<and> de' \<noteq> NULL
                      \<and> find_file (mem st') ld de' (candidate_name cfg (second_candidate alt)) = Some e2
                      \<and> e2 \<noteq> NULL
                      \<and> load_from_cluster dev (start_cluster (dir_entry_at (mem st') e2)) ld
                           (serial_puts msg_loading st') = Some (p2, s)
                      \<and> p2 \<noteq> NULL))"
    by blast
qed



theorem mmc_load_kernel_signals_candidate_witness:
  "get_first_partition sdcard st0 = (Some 1, st_part)
   \<and> process_boot_sector sdcard 1 st_part = (0, st_boot)
   \<and> load_from_cluster sdcard (root_cluster st_boot) 0x80000000 st_boot = Some (0x80000200, st_root)
   \<and> (0x80000200 :: u32) \<noteq> NULL \<and> (0x80000000 :: u32) \<noteq> NULL
   \<and> find_file (mem st_root) 0x80000000 0x80000200 vmlinuz = Some 0x80000000
   \<and> find_file (mem st_root) 0x80000000 0x80000200 vmlinuz_bak = Some NULL
   \<and> load_from_cluster sdcard (start_cluster (dir_entry_at (mem st_root) 0x80000000))
         0x80000000 (serial_puts msg_loading st_root) = Some (0x80000200, st_kernel)
   \<and> mmc_load_kernel cfg0 sdcard 0x80000000 0 st0 = Some (0, st_kernel)
   \<and> mmc_load_kernel cfg1 sdcard 0x80000000 0 st0 = Some (1, st_kernel)
   \<and> mmc_load_kernel cfg0 sdcard 0x80000000 1 st0 = Some (0, st_kernel)
   \<and> mmc_load_kernel cfg1 sdcard 0x80000000 1 st0 = Some (1, st_kernel)
   \<and> load_from_cluster flaky_card (start_cluster (dir_entry_at (mem st_root) 0x80000000))
         0x80000000 (serial_puts msg_loading st_root) = Some (NULL, bad_kernel)
   \<and> load_from_cluster flaky_card (root_cluster bad_kernel) 0x80000000 bad_kernel
         = Some (0x80000200, bad_again)
   \<and> find_file (mem bad_again) 0x80000000 0x80000200 vmlinuz = Some 0x80000000
   \<and> load_from_cluster flaky_card (start_cluster (dir_entry_at (mem bad_again) 0x80000000))
         0x80000000 (serial_puts msg_loading bad_again) = Some (0x80000200, retry_kernel)
   \<and> mmc_load_kernel cfg3 flaky_card 0x80000000 0 st0 = Some (1, retry_kernel)
   \<and> mmc_load_kernel cfg3 flaky_card 0x80000000 1 st0 = Some (0, retry_kernel)"
proof -
  note part = card_part [OF same_content_cards(1)]
  note boot = card_boot [OF same_content_cards(1)]
  note root = card_root [OF same_content_cards(1)]
  note part' = card_part [OF flaky_same]
  note boot' = card_boot [OF flaky_same]
  note root' = card_root [OF flaky_same]
  have n: "(0x80000200 :: u32) \<noteq> NULL" "(0x80000000 :: u32) \<noteq> NULL"
    by (simp_all add: NULL_def)
  note th = mmc_load_kernel_signals_candidate [THEN conjunct1, rule_format, OF conjI [OF part conjI [OF boot conjI [OF root n(1)]]]]
  note th' = mmc_load_kernel_signals_candidate [THEN conjunct1, rule_format, OF conjI [OF part' conjI [OF boot' conjI [OF root' n(1)]]]]
  have a: "mmc_load_kernel cfg0 sdcard 0x80000000 0 st0 = Some (0, st_kernel)"
    using th [THEN conjunct1, of cfg0 0 "0x80000000" "0x80000200" st_kernel]
      root_values card_kernel n
    by (simp add: cfg0_def first_candidate_def)
  have b: "mmc_load_kernel cfg1 sdcard 0x80000000 0 st0 = Some (1, st_kernel)"
    using th [THEN conjunct2, THEN conjunct1, of cfg1 0 "0x80000200" st_root "0x80000000"
        "0x80000200" st_kernel]
      root_values card_kernel n
    by (simp add: cfg1_def first_candidate_def second_candidate_def)
  have c: "mmc_load_kernel cfg0 sdcard 0x80000000 1 st0 = Some (0, st_kernel)"
    using th [THEN conjunct2, THEN conjunct1, of cfg0 1 "0x80000200" st_root "0x80000000"
        "0x80000200" st_kernel]
      root_values card_kernel n
    by (simp add: cfg0_def first_candidate_def second_candidate_def)
  have d: "mmc_load_kernel cfg1 sdcard 0x80000000 1 st0 = Some (1, st_kernel)"
    using th [THEN conjunct1, of cfg1 1 "0x80000000" "0x80000200" st_kernel]
      root_values card_kernel n
    by (simp add: cfg1_def first_candidate_def)
  have e: "mmc_load_kernel cfg3 flaky_card 0x80000000 0 st0 = Some (1, retry_kernel)"
    using th' [THEN conjunct2, THEN conjunct2, of cfg3 0 "0x80000000" bad_kernel "0x80000200"
        bad_again "0x80000000" "0x80000200" retry_kernel]
      root_values again_values flaky_kernel_load flaky_again_load flaky_retry_load n
    by (simp add: cfg3_def first_candidate_def second_candidate_def)
  have f: "mmc_load_kernel cfg3 flaky_card 0x80000000 1 st0 = Some (0, retry_kernel)"
    using th' [THEN conjunct2, THEN conjunct2, of cfg3 1 "0x80000000" bad_kernel "0x80000200"
        bad_again "0x80000000" "0x80000200" retry_kernel]
      root_values again_values flaky_kernel_load flaky_again_load flaky_retry_load n
    by (simp add: cfg3_def first_candidate_def second_candidate_def)
  from part boot root n root_values(1,2) card_kernel a b c d e f
    flaky_kernel_load flaky_again_load again_values(1) flaky_retry_load
  show ?thesis by simp
qed

text \<open>
  Claim C5. When the candidate searched first is found and its chain load fails, the
  root directory is loaded from the card again, and the next candidate is searched in
  what that load stored: the result is -1 when that load fails, -1 (the remembered
  error, without the diagnostic code 0x07) when the next candidate is not found or its
  chain load fails too, and the code of the next candidate when it loads. When the first
  candidate is not found and the load of the second fails, the result is the remembered
  error -1. When neither name is found, the result is -1 after the diagnostic code
  0x07 (kernel file not found).
\<close>

theorem mmc_load_kernel_load_error:
  assumes part: "get_first_partition dev st = (Some l, st1)"
    and boot: "process_boot_sector dev l st1 = (0, st2)"
    and root: "load_from_cluster dev (root_cluster st2) ld st2 = Some (dir_end, st3)"
    and root_ok: "dir_end \<noteq> NULL"
    and again: "(if ld = NULL then load_from_cluster dev (root_cluster st3) ld st3
                 else Some (dir_end, st3)) = Some (dir_end', st3')"
    and again_ok: "dir_end' \<noteq> NULL"
  shows "(find_file (mem st3) ld dir_end
            (if alt = 0 then FAT_BOOTFILE_NAME cfg else FAT_BOOTFILE_ALT_NAME cfg) = Some e
          \<and> e \<noteq> NULL
          \<and> load_from_cluster dev (start_cluster (dir_entry_at (mem st3) e)) ld
               (serial_puts msg_loading st3) = Some (NULL, st4)
          \<longrightarrow>
            (load_from_cluster dev (root_cluster st4) ld st4 = Some (NULL, st5)
               \<longrightarrow> mmc_load_kernel cfg dev ld alt st = Some (- 1, st5))
          \<and> (load_from_cluster dev (root_cluster st4) ld st4 = Some (dir_end5, st5)
              \<and> dir_end5 \<noteq> NULL
               \<longrightarrow>
                 (find_file (mem st5) ld dir_end5
                    (if alt = 0 then FAT_BOOTFILE_ALT_NAME cfg else FAT_BOOTFILE_NAME cfg) = Some NULL
                    \<longrightarrow> mmc_load_kernel cfg dev ld alt st = Some (- 1, st5))
               \<and> (find_file (mem st5) ld dir_end5
                    (if alt = 0 then FAT_BOOTFILE_ALT_NAME cfg else FAT_BOOTFILE_NAME cfg) = Some e2
                  \<and> e2 \<noteq> NULL
                  \<and> load_from_cluster dev (start_cluster (dir_entry_at (mem st5) e2)) ld
                       (serial_puts msg_loading st5) = Some (p2, st6)
                    \<longrightarrow> mmc_load_kernel cfg dev ld alt st
                          = Some (if p2 \<noteq> NULL then (if alt = 0 then 1 else 0) else - 1, st6))))
      \<and> (find_file (mem st3) ld dir_end
            (if alt = 0 then FAT_BOOTFILE_NAME cfg else FAT_BOOTFILE_ALT_NAME cfg) = Some NULL
          \<and> find_file (mem st3') ld dir_end'
            (if alt = 0 then FAT_BOOTFILE_ALT_NAME cfg else FAT_BOOTFILE_NAME cfg) = Some e
          \<and> e \<noteq> NULL
          \<and> load_from_cluster dev (start_cluster (dir_entry_at (mem st3') e)) ld
               (serial_puts msg_loading st3') = Some (NULL, st4)
          \<longrightarrow> mmc_load_kernel cfg dev ld alt st = Some (- 1, st4))
      \<and> (find_file (mem st3) ld dir_end
            (if alt = 0 then FAT_BOOTFILE_NAME cfg else FAT_BOOTFILE_ALT_NAME cfg) = Some NULL
          \<and> find_file (mem st3') ld dir_end'
            (if alt = 0 then FAT_BOOTFILE_ALT_NAME cfg else FAT_BOOTFILE_NAME cfg) = Some NULL
          \<longrightarrow> mmc_load_kernel cfg dev ld alt st = Some (- 1, serial_puti 0x07 st3'))"
proof -
  have start: "mmc_load_kernel cfg dev ld alt st = kernel_loop cfg dev ld alt 0 NULL NULL 0 st2"
    using part boot by (simp add: mmc_load_kernel_def)
  note first = kernel_loop_first [OF root root_ok, of cfg alt NULL]
  have second: "kernel_loop cfg dev ld alt 1 ld dir_end 0 st3 =
     (case find_file (mem st3') ld dir_end'
             (if alt = 0 then FAT_BOOTFILE_ALT_NAME cfg else FAT_BOOTFILE_NAME cfg) of
        None \<Rightarrow> None
      | Some entry \<Rightarrow>
          if entry \<noteq> NULL then
            (case load_from_cluster dev (start_cluster (dir_entry_at (mem st3') entry)) ld
                    (serial_puts msg_loading st3') of
               None \<Rightarrow> None
             | Some (p, st4) \<Rightarrow>
                 if p \<noteq> NULL then Some (if alt = 0 then 1 else 0, st4)
                 else Some (- 1, st4))
          else if (0 :: int) \<noteq> 0 then Some (0, st3') else Some (- 1, serial_puti 0x07 st3'))"
    by (rule kernel_loop_second [OF again again_ok]) simp
  have reload_fail: "load_from_cluster dev (root_cluster st4) ld st4 = Some (NULL, st5)
      \<Longrightarrow> kernel_loop cfg dev ld alt 1 NULL dir_end (- 1) st4 = Some (- 1, st5)"
    by (subst kernel_loop.simps) simp
  have reload: "load_from_cluster dev (root_cluster st4) ld st4 = Some (dir_end5, st5)
      \<Longrightarrow> dir_end5 \<noteq> NULL \<Longrightarrow>
      kernel_loop cfg dev ld alt 1 NULL dir_end (- 1) st4 =
     (case find_file (mem st5) ld dir_end5
             (if alt = 0 then FAT_BOOTFILE_ALT_NAME cfg else FAT_BOOTFILE_NAME cfg) of
        None \<Rightarrow> None
      | Some entry \<Rightarrow>
          if entry \<noteq> NULL then
            (case load_from_cluster dev (start_cluster (dir_entry_at (mem st5) entry)) ld
                    (serial_puts msg_loading st5) of
               None \<Rightarrow> None
             | Some (p, st4) \<Rightarrow>
                 if p \<noteq> NULL then Some (if alt = 0 then 1 else 0, st4)
                 else Some (- 1, st4))
          else if (- 1 :: int) \<noteq> 0 then Some (- 1, st5) else Some (- 1, serial_puti 0x07 st5))"
    by (rule kernel_loop_second) simp_all
  have i: "find_file (mem st3) ld dir_end
            (if alt = 0 then FAT_BOOTFILE_NAME cfg else FAT_BOOTFILE_ALT_NAME cfg) = Some e
          \<and> e \<noteq> NULL
          \<and> load_from_cluster dev (start_cluster (dir_entry_at (mem st3) e)) ld
               (serial_puts msg_loading st3) = Some (NULL, st4)
          \<longrightarrow>
            (load_from_cluster dev (root_cluster st4) ld st4 = Some (NULL, st5)
               \<longrightarrow> mmc_load_kernel cfg dev ld alt st = Some (- 1, st5))
          \<and> (load_from_cluster dev (root_cluster st4) ld st4 = Some (dir_end5, st5)
              \<and> dir_end5 \<noteq> NULL
               \<longrightarrow>
                 (find_file (mem st5) ld dir_end5
                    (if alt = 0 then FAT_BOOTFILE_ALT_NAME cfg else FAT_BOOTFILE_NAME cfg) = Some NULL
                    \<longrightarrow> mmc_load_kernel cfg dev ld alt st = Some (- 1, st5))
               \<and> (find_file (mem st5) ld dir_end5
                    (if alt = 0 then FAT_BOOTFILE_ALT_NAME cfg else FAT_BOOTFILE_NAME cfg) = Some e2
                  \<and> e2 \<noteq> NULL
                  \<and> load_from_cluster dev (start_cluster (dir_entry_at (mem st5) e2)) ld
                       (serial_puts msg_loading st5) = Some (p2, st6)
                    \<longrightarrow> mmc_load_kernel cfg dev ld alt st
                          = Some (if p2 \<noteq> NULL then (if alt = 0 then 1 else 0) else - 1, st6)))"
  proof (intro impI, elim conjE)
    assume f: "find_file (mem st3) ld dir_end
            (if alt = 0 then FAT_BOOTFILE_NAME cfg else FAT_BOOTFILE_ALT_NAME cfg) = Some e"
      and e: "e \<noteq> NULL"
      and l: "load_from_cluster dev (start_cluster (dir_entry_at (mem st3) e)) ld
               (serial_puts msg_loading st3) = Some (NULL, st4)"
    have go: "mmc_load_kernel cfg dev ld alt st = kernel_loop cfg dev ld alt 1 NULL dir_end (- 1) st4"
      by (simp add: start first f e l)
    show "(load_from_cluster dev (root_cluster st4) ld st4 = Some (NULL, st5)
               \<longrightarrow> mmc_load_kernel cfg dev ld alt st = Some (- 1, st5))
          \<and> (load_from_cluster dev (root_cluster st4) ld st4 = Some (dir_end5, st5)
              \<and> dir_end5 \<noteq> NULL
               \<longrightarrow>
                 (find_file (mem st5) ld dir_end5
                    (if alt = 0 then FAT_BOOTFILE_ALT_NAME cfg else FAT_BOOTFILE_NAME cfg) = Some NULL
                    \<longrightarrow> mmc_load_kernel cfg dev ld alt st = Some (- 1, st5))
               \<and> (find_file (mem st5) ld dir_end5
                    (if alt = 0 then FAT_BOOTFILE_ALT_NAME cfg else FAT_BOOTFILE_NAME cfg) = Some e2
                  \<and> e2 \<noteq> NULL
                  \<and> load_from_cluster dev (start_cluster (dir_entry_at (mem st5) e2)) ld
                       (serial_puts msg_loading st5) = Some (p2, st6)
                    \<longrightarrow> mmc_load_kernel cfg dev ld alt st
                          = Some (if p2 \<noteq> NULL then (if alt = 0 then 1 else 0) else - 1, st6)))"
      unfolding go using reload_fail reload by simp
  qed
  have ii: "find_file (mem st3) ld dir_end
            (if alt = 0 then FAT_BOOTFILE_NAME cfg else FAT_BOOTFILE_ALT_NAME cfg) = Some NULL
          \<and> find_file (mem st3') ld dir_end'
            (if alt = 0 then FAT_BOOTFILE_ALT_NAME cfg else FAT_BOOTFILE_NAME cfg) = Some e
          \<and> e \<noteq> NULL
          \<and> load_from_cluster dev (start_cluster (dir_entry_at (mem st3') e)) ld
               (serial_puts msg_loading st3') = Some (NULL, st4)
          \<longrightarrow> mmc_load_kernel cfg dev ld alt st = Some (- 1, st4)"
    by (simp add: start first second)
  have iii: "find_file (mem st3) ld dir_end
            (if alt = 0 then FAT_BOOTFILE_NAME cfg else FAT_BOOTFILE_ALT_NAME cfg) = Some NULL
          \<and> find_file (mem st3') ld dir_end'
            (if alt = 0 then FAT_BOOTFILE_ALT_NAME cfg else FAT_BOOTFILE_NAME cfg) = Some NULL
          \<longrightarrow> mmc_load_kernel cfg dev ld alt st = Some (- 1, serial_puti 0x07 st3')"
    by (simp add: start first second)
  from i ii iii show ?thesis by (intro conjI)
qed

theorem mmc_load_kernel_load_error_witness:
  "get_first_partition bad_card st0 = (Some 1, st_part)
   \<and> process_boot_sector bad_card 1 st_part = (0, st_boot)
   \<and> load_from_cluster bad_card (root_cluster st_boot) 0x80000000 st_boot = Some (0x80000200, st_root)
   \<and> (0x80000200 :: u32) \<noteq> NULL \<and> (0x80000000 :: u32) \<noteq> NULL
   \<and> find_file (mem st_root) 0x80000000 0x80000200 vmlinuz = Some 0x80000000
   \<and> load_from_cluster bad_card (start_cluster (dir_entry_at (mem st_root) 0x80000000))
         0x80000000 (serial_puts msg_loading st_root) = Some (NULL, bad_kernel)
   \<and> load_from_cluster bad_card (root_cluster bad_kernel) 0x80000000 bad_kernel
         = Some (0x80000200, bad_again)
   \<and> find_file (mem bad_again) 0x80000000 0x80000200 vmlinuz_bak = Some NULL
   \<and> mmc_load_kernel cfg0 bad_card 0x80000000 0 st0 = Some (- 1, bad_again)
   \<and> mmc_load_kernel cfg1 bad_card 0x80000000 0 st0 = Some (- 1, bad_kernel)
   \<and> find_file (mem st_root) 0x80000000 0x80000200 vmlinuz_bak = Some NULL
   \<and> mmc_load_kernel cfg2 sdcard 0x80000000 0 st0 = Some (- 1, serial_puti 0x07 st_root)"
proof -
  note part = card_part [OF same_content_cards(2)]
  note boot = card_boot [OF same_content_cards(2)]
  note root = card_root [OF same_content_cards(2)]
  note part' = card_part [OF same_content_cards(1)]
  note boot' = card_boot [OF same_content_cards(1)]
  note root' = card_root [OF same_content_cards(1)]
  have n: "(0x80000200 :: u32) \<noteq> NULL" "(0x80000000 :: u32) \<noteq> NULL"
    by (simp_all add: NULL_def)
  have again: "(if (0x80000000 :: u32) = NULL
        then load_from_cluster dev (root_cluster st_root) 0x80000000 st_root
        else Some (0x80000200, st_root)) = Some (0x80000200, st_root)" for dev
    using n by simp
  have a: "mmc_load_kernel cfg0 bad_card 0x80000000 0 st0 = Some (- 1, bad_again)"
    using mmc_load_kernel_load_error [OF part boot root n(1) again n(1),
        where alt = 0 and cfg = cfg0 and e = "0x80000000" and ?st4.0 = bad_kernel
          and ?st5.0 = bad_again and ?dir_end5.0 = "0x80000200"]
      root_values bad_kernel_load bad_again_load bad_values n
    by (simp add: cfg0_def)
  have b: "mmc_load_kernel cfg1 bad_card 0x80000000 0 st0 = Some (- 1, bad_kernel)"
    using mmc_load_kernel_load_error [OF part boot root n(1) again n(1),
        where alt = 0 and cfg = cfg1 and e = "0x80000000" and ?st4.0 = bad_kernel]
      root_values bad_kernel_load n
    by (simp add: cfg1_def)
  have c: "mmc_load_kernel cfg2 sdcard 0x80000000 0 st0 = Some (- 1, serial_puti 0x07 st_root)"
    using mmc_load_kernel_load_error [OF part' boot' root' n(1) again n(1),
        where alt = 0 and cfg = cfg2]
      root_values
    by (simp add: cfg2_def)
  from part boot root n root_values(1,2) bad_kernel_load bad_again_load bad_values(6) a b c
  show ?thesis by simp
qed

end
